theory Spec2Isabelle
  imports Main
begin

section \<open>Python values and exceptions\<close>

text \<open>
  The values that travel between \<open>DbClient\<close>, \<open>TheOracle\<close> and the store. \<open>VObj c attrs\<close>
  is an instance of class \<open>c\<close> with the attribute dictionary \<open>attrs\<close> (a build state, a
  download state). A set keeps its elements as a duplicate-free list.
\<close>

datatype val =
    VNone
  | VBool bool
  | VInt int
  | VStr string
  | VBytes string
  | VList "val list"
  | VTuple "val list"
  | VSet "val list"
  | VDict "(val \<times> val) list"
  | VObj string "(string \<times> val) list"

text \<open>
  Exceptions are instances of \<open>Exception\<close>, which is what \<open>except Exception\<close> catches (an
  interrupt or an exit of the interpreter is no part of the model): the class, and
  \<open>str(exc)\<close>. \<open>IOError\<close> stands for that class and its subclasses. \<open>OtherException c\<close>
  is any further subclass of \<open>Exception\<close> that does not derive from \<open>IOError\<close>, named \<open>c\<close>
  (a failure of the store, for instance). \<open>Again\<close> is \<open>zmq.error.Again\<close>, the error of a
  non-blocking send or receive that cannot proceed (EAGAIN).
\<close>

datatype exc_class =
  IOError | KeyError | TypeError | ValueError | AttributeError | Again | OtherException string

datatype py_exc = Exc exc_class string

fun str_exc :: "py_exc \<Rightarrow> string" where
  "str_exc (Exc c s) = s"

fun isinstance_IOError :: "py_exc \<Rightarrow> bool" where
  "isinstance_IOError (Exc c s) = (c = IOError)"

text \<open>What a call does: it returns, it raises, or it never comes back (a blocking receive).\<close>

datatype 'a result = Return 'a | Raise py_exc | Hang

text \<open>Iterating a value (\<open>*data\<close>, \<open>list(x)\<close>, \<open>a, b, c = x\<close>, \<open>for k, v in x\<close>).\<close>

fun py_iter :: "val \<Rightarrow> py_exc + val list" where
  "py_iter (VList xs) = Inr xs"
| "py_iter (VTuple xs) = Inr xs"
| "py_iter (VSet xs) = Inr xs"
| "py_iter (VDict kvs) = Inr (map fst kvs)"
| "py_iter (VStr s) = Inr (map (\<lambda>c. VStr [c]) s)"
| "py_iter (VBytes s) = Inr (map (\<lambda>c. VInt (of_char c)) s)"
| "py_iter v = Inl (Exc TypeError ''object is not iterable'')"

fun hashable :: "val \<Rightarrow> bool" where
  "hashable (VList xs) = False"
| "hashable (VSet xs) = False"
| "hashable (VDict kvs) = False"
| "hashable (VTuple xs) = (\<forall>x \<in> set xs. hashable x)"
| "hashable v = True"

definition py_list :: "val \<Rightarrow> py_exc + val" where
  "py_list v = (case py_iter v of Inl e \<Rightarrow> Inl e | Inr xs \<Rightarrow> Inr (VList xs))"

definition py_set :: "val \<Rightarrow> py_exc + val" where
  "py_set v =
     (case py_iter v of
        Inl e \<Rightarrow> Inl e
      | Inr xs \<Rightarrow>
          if (\<forall>x \<in> set xs. hashable x) then Inr (VSet (remdups xs))
          else Inl (Exc TypeError ''unhashable type''))"

text \<open>\<open>x.items()\<close>: the pairs of a dictionary, in its order.\<close>

fun py_items :: "val \<Rightarrow> py_exc + val" where
  "py_items (VDict kvs) = Inr (VList (map (\<lambda>(k, v). VTuple [k, v]) kvs))"
| "py_items v = Inl (Exc AttributeError ''object has no attribute items'')"

text \<open>\<open>x.build_id\<close>: reading an attribute of an object.\<close>

fun py_getattr :: "val \<Rightarrow> string \<Rightarrow> py_exc + val" where
  "py_getattr (VObj c attrs) a =
     (case map_of attrs a of
        None \<Rightarrow> Inl (Exc AttributeError (''object has no attribute '' @ a))
      | Some v \<Rightarrow> Inr v)"
| "py_getattr v a = Inl (Exc AttributeError (''object has no attribute '' @ a))"

text \<open>
  \<open>repr\<close> of a dictionary key, the text of a \<open>KeyError\<close>. Only the shape of the text for a
  string key is kept (quotes around it, no escapes); other keys are abbreviated.
\<close>

fun py_repr :: "val \<Rightarrow> string" where
  "py_repr (VStr s) = [CHR 0x27] @ s @ [CHR 0x27]"
| "py_repr VNone = ''None''"
| "py_repr (VBool b) = (if b then ''True'' else ''False'')"
| "py_repr v = ''<object>''"


section \<open>The store\<close>

text \<open>
  The class \<open>Database\<close> (module \<open>db\<close>) is a collaborator: each of its methods is a parameter
  here. A method takes its arguments and the state of the store, and gives what it returned
  or raised together with the state it left. \<open>db_log_build\<close> stores the build identifier
  in the object it is passed: it gives that object as it is after the call.
\<close>

type_synonym 'db store_result = "(py_exc + val) \<times> 'db"

record 'db database =
  db_get_all_packages :: "'db \<Rightarrow> 'db store_result"
  db_get_all_package_versions :: "'db \<Rightarrow> 'db store_result"
  db_add_new_package :: "val \<Rightarrow> 'db \<Rightarrow> 'db store_result"
  db_add_new_package_version :: "val \<Rightarrow> val \<Rightarrow> val \<Rightarrow> val \<Rightarrow> 'db \<Rightarrow> 'db store_result"
  db_skip_package :: "val \<Rightarrow> val \<Rightarrow> 'db \<Rightarrow> 'db store_result"
  db_skip_package_version :: "val \<Rightarrow> val \<Rightarrow> val \<Rightarrow> 'db \<Rightarrow> 'db store_result"
  db_log_download :: "val \<Rightarrow> 'db \<Rightarrow> 'db store_result"
  db_log_build :: "val \<Rightarrow> 'db \<Rightarrow> 'db store_result"
  db_delete_build :: "val \<Rightarrow> val \<Rightarrow> 'db \<Rightarrow> 'db store_result"
  db_get_package_files :: "val \<Rightarrow> 'db \<Rightarrow> 'db store_result"
  db_get_project_versions :: "val \<Rightarrow> 'db \<Rightarrow> 'db store_result"
  db_get_project_files :: "val \<Rightarrow> 'db \<Rightarrow> 'db store_result"
  db_get_version_files :: "val \<Rightarrow> val \<Rightarrow> 'db \<Rightarrow> 'db store_result"
  db_get_version_skip :: "val \<Rightarrow> val \<Rightarrow> 'db \<Rightarrow> 'db store_result"
  db_test_package_version :: "val \<Rightarrow> val \<Rightarrow> 'db \<Rightarrow> 'db store_result"
  db_get_build_abis :: "'db \<Rightarrow> 'db store_result"
  db_get_pypi_serial :: "'db \<Rightarrow> 'db store_result"
  db_set_pypi_serial :: "val \<Rightarrow> 'db \<Rightarrow> 'db store_result"
  db_get_statistics :: "'db \<Rightarrow> 'db store_result"
  db_get_downloads_recent :: "'db \<Rightarrow> 'db store_result"
  db_get_file_dependencies :: "val \<Rightarrow> 'db \<Rightarrow> 'db store_result"

text \<open>The result of a store call passed through a conversion (\<open>list\<close>, \<open>set\<close>, \<open>.items()\<close>).\<close>

definition then_apply :: "'db store_result \<Rightarrow> (val \<Rightarrow> py_exc + val) \<Rightarrow> 'db store_result" where
  "then_apply r f = (case r of (Inl e, s) \<Rightarrow> (Inl e, s) | (Inr v, s) \<Rightarrow> (f v, s))"

text \<open>A handler that calls the store and falls off its end returns \<open>None\<close>.\<close>

definition returning_None :: "'db store_result \<Rightarrow> 'db store_result" where
  "returning_None r = then_apply r (\<lambda>v. Inr VNone)"

text \<open>Calling a handler with the wrong number of positional arguments.\<close>

definition arity_error :: py_exc where
  "arity_error = Exc TypeError ''wrong number of positional arguments''"


section \<open>The handlers of \<open>TheOracle\<close>\<close>

text \<open>
  Each \<open>do_*\<close> method, called as \<open>handler(*data)\<close>: \<open>args\<close> are the positional arguments.
  A call with another number of arguments raises \<open>TypeError\<close> before the body runs.
\<close>

definition do_allpkgs :: "'db database \<Rightarrow> val list \<Rightarrow> 'db \<Rightarrow> 'db store_result" where
  "do_allpkgs D args s =
     (case args of
        [] \<Rightarrow> db_get_all_packages D s
      | _ \<Rightarrow> (Inl arity_error, s))"

definition do_allvers :: "'db database \<Rightarrow> val list \<Rightarrow> 'db \<Rightarrow> 'db store_result" where
  "do_allvers D args s =
     (case args of
        [] \<Rightarrow> db_get_all_package_versions D s
      | _ \<Rightarrow> (Inl arity_error, s))"

definition do_newpkg :: "'db database \<Rightarrow> val list \<Rightarrow> 'db \<Rightarrow> 'db store_result" where
  "do_newpkg D args s =
     (case args of
        [package, skip] \<Rightarrow> db_add_new_package D package s
      | _ \<Rightarrow> (Inl arity_error, s))"

definition do_newver :: "'db database \<Rightarrow> val list \<Rightarrow> 'db \<Rightarrow> 'db store_result" where
  "do_newver D args s =
     (case args of
        [package, version, released, skip] \<Rightarrow> db_add_new_package_version D package version released skip s
      | _ \<Rightarrow> (Inl arity_error, s))"

definition do_skippkg :: "'db database \<Rightarrow> val list \<Rightarrow> 'db \<Rightarrow> 'db store_result" where
  "do_skippkg D args s =
     (case args of
        [package, reason] \<Rightarrow> returning_None (db_skip_package D package reason s)
      | _ \<Rightarrow> (Inl arity_error, s))"

definition do_skipver :: "'db database \<Rightarrow> val list \<Rightarrow> 'db \<Rightarrow> 'db store_result" where
  "do_skipver D args s =
     (case args of
        [package, version, reason] \<Rightarrow> returning_None (db_skip_package_version D package version reason s)
      | _ \<Rightarrow> (Inl arity_error, s))"

definition do_logdownload :: "'db database \<Rightarrow> val list \<Rightarrow> 'db \<Rightarrow> 'db store_result" where
  "do_logdownload D args s =
     (case args of
        [download] \<Rightarrow> returning_None (db_log_download D download s)
      | _ \<Rightarrow> (Inl arity_error, s))"

definition do_logbuild :: "'db database \<Rightarrow> val list \<Rightarrow> 'db \<Rightarrow> 'db store_result" where
  "do_logbuild D args s =
     (case args of
        [build] \<Rightarrow> then_apply (db_log_build D build s) (\<lambda>build'. py_getattr build' ''build_id'')
      | _ \<Rightarrow> (Inl arity_error, s))"

definition do_delbuild :: "'db database \<Rightarrow> val list \<Rightarrow> 'db \<Rightarrow> 'db store_result" where
  "do_delbuild D args s =
     (case args of
        [package, version] \<Rightarrow> returning_None (db_delete_build D package version s)
      | _ \<Rightarrow> (Inl arity_error, s))"

definition do_pkgfiles :: "'db database \<Rightarrow> val list \<Rightarrow> 'db \<Rightarrow> 'db store_result" where
  "do_pkgfiles D args s =
     (case args of
        [package] \<Rightarrow> then_apply (db_get_package_files D package s) py_list
      | _ \<Rightarrow> (Inl arity_error, s))"

definition do_projvers :: "'db database \<Rightarrow> val list \<Rightarrow> 'db \<Rightarrow> 'db store_result" where
  "do_projvers D args s =
     (case args of
        [package] \<Rightarrow> then_apply (db_get_project_versions D package s) py_list
      | _ \<Rightarrow> (Inl arity_error, s))"

definition do_projfiles :: "'db database \<Rightarrow> val list \<Rightarrow> 'db \<Rightarrow> 'db store_result" where
  "do_projfiles D args s =
     (case args of
        [package] \<Rightarrow> then_apply (db_get_project_files D package s) py_list
      | _ \<Rightarrow> (Inl arity_error, s))"

definition do_verfiles :: "'db database \<Rightarrow> val list \<Rightarrow> 'db \<Rightarrow> 'db store_result" where
  "do_verfiles D args s =
     (case args of
        [package, version] \<Rightarrow> then_apply (db_get_version_files D package version s) py_set
      | _ \<Rightarrow> (Inl arity_error, s))"

definition do_getskip :: "'db database \<Rightarrow> val list \<Rightarrow> 'db \<Rightarrow> 'db store_result" where
  "do_getskip D args s =
     (case args of
        [package, version] \<Rightarrow> db_get_version_skip D package version s
      | _ \<Rightarrow> (Inl arity_error, s))"

definition do_pkgexists :: "'db database \<Rightarrow> val list \<Rightarrow> 'db \<Rightarrow> 'db store_result" where
  "do_pkgexists D args s =
     (case args of
        [package, version] \<Rightarrow> db_test_package_version D package version s
      | _ \<Rightarrow> (Inl arity_error, s))"

definition do_getabis :: "'db database \<Rightarrow> val list \<Rightarrow> 'db \<Rightarrow> 'db store_result" where
  "do_getabis D args s =
     (case args of
        [] \<Rightarrow> db_get_build_abis D s
      | _ \<Rightarrow> (Inl arity_error, s))"

definition do_getpypi :: "'db database \<Rightarrow> val list \<Rightarrow> 'db \<Rightarrow> 'db store_result" where
  "do_getpypi D args s =
     (case args of
        [] \<Rightarrow> db_get_pypi_serial D s
      | _ \<Rightarrow> (Inl arity_error, s))"

definition do_setpypi :: "'db database \<Rightarrow> val list \<Rightarrow> 'db \<Rightarrow> 'db store_result" where
  "do_setpypi D args s =
     (case args of
        [serial] \<Rightarrow> returning_None (db_set_pypi_serial D serial s)
      | _ \<Rightarrow> (Inl arity_error, s))"

definition do_getstats :: "'db database \<Rightarrow> val list \<Rightarrow> 'db \<Rightarrow> 'db store_result" where
  "do_getstats D args s =
     (case args of
        [] \<Rightarrow> then_apply (db_get_statistics D s) py_items
      | _ \<Rightarrow> (Inl arity_error, s))"

definition do_getdl :: "'db database \<Rightarrow> val list \<Rightarrow> 'db \<Rightarrow> 'db store_result" where
  "do_getdl D args s =
     (case args of
        [] \<Rightarrow> db_get_downloads_recent D s
      | _ \<Rightarrow> (Inl arity_error, s))"

definition do_filedeps :: "'db database \<Rightarrow> val list \<Rightarrow> 'db \<Rightarrow> 'db store_result" where
  "do_filedeps D args s =
     (case args of
        [filename] \<Rightarrow> db_get_file_dependencies D filename s
      | _ \<Rightarrow> (Inl arity_error, s))"

text \<open>The dictionary of \<open>handle_db_request\<close>, in the order it is written.\<close>

definition handlers ::
  "'db database \<Rightarrow> (string \<times> (val list \<Rightarrow> 'db \<Rightarrow> 'db store_result)) list" where
  "handlers D =
     [(''ALLPKGS'', do_allpkgs D),
      (''ALLVERS'', do_allvers D),
      (''NEWPKG'', do_newpkg D),
      (''NEWVER'', do_newver D),
      (''SKIPPKG'', do_skippkg D),
      (''SKIPVER'', do_skipver D),
      (''LOGDOWNLOAD'', do_logdownload D),
      (''LOGBUILD'', do_logbuild D),
      (''DELBUILD'', do_delbuild D),
      (''PKGFILES'', do_pkgfiles D),
      (''PROJVERS'', do_projvers D),
      (''PROJFILES'', do_projfiles D),
      (''VERFILES'', do_verfiles D),
      (''GETSKIP'', do_getskip D),
      (''PKGEXISTS'', do_pkgexists D),
      (''GETABIS'', do_getabis D),
      (''GETPYPI'', do_getpypi D),
      (''SETPYPI'', do_setpypi D),
      (''GETSTATS'', do_getstats D),
      (''GETDL'', do_getdl D),
      (''FILEDEPS'', do_filedeps D)]"

text \<open>The keys of that dictionary: the operation names the worker recognises.\<close>

definition catalog :: "string list" where
  "catalog =
     [''ALLPKGS'', ''ALLVERS'', ''NEWPKG'', ''NEWVER'', ''SKIPPKG'', ''SKIPVER'',
      ''LOGDOWNLOAD'', ''LOGBUILD'', ''DELBUILD'', ''PKGFILES'', ''PROJVERS'', ''PROJFILES'',
      ''VERFILES'', ''GETSKIP'', ''PKGEXISTS'', ''GETABIS'', ''GETPYPI'', ''SETPYPI'',
      ''GETSTATS'', ''GETDL'', ''FILEDEPS'']"

text \<open>
  \<open>{...}[msg]\<close>: the handler under the key \<open>msg\<close>. Only a \<open>str\<close> equals a key; a key that
  cannot be hashed is a \<open>TypeError\<close>, any other missing key a \<open>KeyError\<close>.
\<close>

definition lookup_handler ::
  "'db database \<Rightarrow> val \<Rightarrow> py_exc + (val list \<Rightarrow> 'db \<Rightarrow> 'db store_result)" where
  "lookup_handler D msg =
     (if \<not> hashable msg then Inl (Exc TypeError ''unhashable type'')
      else case msg of
        VStr m \<Rightarrow>
          (case map_of (handlers D) m of
             None \<Rightarrow> Inl (Exc KeyError (py_repr msg))
           | Some handler \<Rightarrow> Inr handler)
      | _ \<Rightarrow> Inl (Exc KeyError (py_repr msg)))"

text \<open>\<open>handler(*data)\<close>: \<open>data\<close> is iterated into the positional arguments.\<close>

definition call_handler ::
  "(val list \<Rightarrow> 'db \<Rightarrow> 'db store_result) \<Rightarrow> val \<Rightarrow> 'db \<Rightarrow> 'db store_result" where
  "call_handler handler data s =
     (case py_iter data of Inl e \<Rightarrow> (Inl e, s) | Inr args \<Rightarrow> handler args s)"


section \<open>The worker: \<open>TheOracle\<close>\<close>

text \<open>
  What a worker does to the world, in the order it does it: the trace of one worker holds
  the calls it made on its store connection's constructor, its socket and its logger.
  The transport (module \<open>transport\<close>) and the task runtime (module \<open>tasks\<close>) are
  collaborators: a call on the socket or the logger is recorded and comes back.
\<close>

datatype event =
    DbOpened val
  | SocketCreated
  | HwmSet nat
  | Connected string
  | Registered
  | Sent val
  | SentAddrMsg val string val
  | LoggedException py_exc
  | LoggedError string val

record 'db the_oracle =
  name :: string
  db :: 'db
  trace :: "event list"

record config =
  dsn :: val
  db_queue :: string

text \<open>\<open>'%d' % n\<close> for a number that is not negative.\<close>

definition digit :: "nat \<Rightarrow> char" where
  "digit d = ''0123456789'' ! d"

fun dec :: "nat \<Rightarrow> string" where
  "dec n = (if n < 10 then [digit n] else dec (n div 10) @ [digit (n mod 10)])"

declare dec.simps [simp del]

definition TheOracle_name :: string where
  "TheOracle_name = ''master.the_oracle''"

text \<open>
  \<open>TheOracle.__init__\<close>. \<open>Database\<close> is the constructor of the store connection and
  \<open>ORACLE_QUEUE\<close> the address \<open>const.ORACLE_QUEUE\<close>; \<open>instance\<close> is the class attribute
  \<open>TheOracle.instance\<close>, given and returned. \<open>Task.__init__\<close> leaves no event.
\<close>

definition init ::
  "(val \<Rightarrow> py_exc + 'db) \<Rightarrow> string \<Rightarrow> nat \<Rightarrow> config \<Rightarrow> nat \<times> 'db the_oracle result" where
  "init Database ORACLE_QUEUE instance cfg =
     (let instance' = instance + 1;
          self_name = TheOracle_name @ ''_'' @ dec instance'
      in case Database (dsn cfg) of
           Inl e \<Rightarrow> (instance', Raise e)
         | Inr d \<Rightarrow>
             (instance',
              Return \<lparr>name = self_name, db = d,
                trace = [DbOpened (dsn cfg), SocketCreated, HwmSet 10, Connected ORACLE_QUEUE,
                         Registered, Sent (VBytes ''READY'')]\<rparr>))"

text \<open>\<open>address, msg, data = queue.recv_multipart()\<close>: the unpacking of what was received.\<close>

definition unpack3 :: "val \<Rightarrow> py_exc + (val \<times> val \<times> val)" where
  "unpack3 v =
     (case py_iter v of
        Inl e \<Rightarrow> Inl e
      | Inr [address, msg, data] \<Rightarrow> Inr (address, msg, data)
      | Inr _ \<Rightarrow> Inl (Exc ValueError ''wrong number of values to unpack''))"

text \<open>
  \<open>TheOracle.handle_db_request\<close>. \<open>received\<close> is what \<open>queue.recv_multipart()\<close> does when the
  runtime calls the handler: it raises, or it returns the parts of a message. An exception
  that is not an \<open>IOError\<close> leaves the handler.
\<close>

definition handle_db_request ::
  "'db database \<Rightarrow> 'db the_oracle \<Rightarrow> py_exc + val \<Rightarrow> unit result \<times> 'db the_oracle" where
  "handle_db_request D self received =
     (case (case received of Inl e \<Rightarrow> Inl e | Inr parts \<Rightarrow> unpack3 parts) of
        Inl e \<Rightarrow>
          if isinstance_IOError e
          then (Return (), self\<lparr>trace := trace self @ [LoggedException e]\<rparr>)
          else (Raise e, self)
      | Inr (address, msg, data) \<Rightarrow>
          (case (case lookup_handler D msg of
                   Inl exc \<Rightarrow> (Inl exc, db self)
                 | Inr handler \<Rightarrow> call_handler handler data (db self)) of
             (Inl exc, s) \<Rightarrow>
               (Return (),
                self\<lparr>db := s,
                  trace := trace self @
                    [LoggedError ''Error handling db request: %s'' msg,
                     SentAddrMsg address ''ERROR'' (VStr (str_exc exc))]\<rparr>)
           | (Inr result, s) \<Rightarrow>
               (Return (),
                self\<lparr>db := s, trace := trace self @ [SentAddrMsg address ''OK'' result]\<rparr>)))"

text \<open>The reply envelopes in a trace: address, status and payload of each, in order.\<close>

fun reply_of :: "event \<Rightarrow> (val \<times> string \<times> val) option" where
  "reply_of (SentAddrMsg address status payload) = Some (address, status, payload)"
| "reply_of ev = None"

definition replies :: "event list \<Rightarrow> (val \<times> string \<times> val) list" where
  "replies tr = List.map_filter reply_of tr"


section \<open>The client: \<open>DbClient\<close>\<close>

datatype flag = BLOCKING | NOBLOCK

datatype socket_call = SendMsgCall string val flag | RecvMsgCall

text \<open>
  The socket \<open>self.db_queue\<close> of a client. \<open>writable\<close>: the transport can accept a message
  at once. \<open>peer\<close>: the far end of the connection (the broker and the workers behind it),
  as the replies it sends back for a request. \<open>outbound\<close>: the requests the transport has
  accepted. \<open>inbound\<close>: the replies that have arrived, as \<open>recv_msg\<close> gives them (status
  and payload). \<open>calls\<close>: the calls the client made on the socket, in order.
\<close>

record client_socket =
  writable :: bool
  peer :: "string \<Rightarrow> val \<Rightarrow> (string \<times> val) list"
  outbound :: "(string \<times> val) list"
  inbound :: "(string \<times> val) list"
  calls :: "socket_call list"

text \<open>
  Modelled from the spec: \<open>Socket.send_msg\<close> of the module \<open>transport\<close>, which is not among the
  sources. A send that cannot proceed at once fails with \<open>Again\<close> (EAGAIN) when it is made
  with \<open>NOBLOCK\<close> and enqueues nothing; without that flag it waits. An accepted request
  reaches the far end, whose replies arrive on the socket.
\<close>

definition send_msg ::
  "client_socket \<Rightarrow> string \<Rightarrow> val \<Rightarrow> flag \<Rightarrow> unit result \<times> client_socket" where
  "send_msg sock msg data flags =
     (let sock' = sock\<lparr>calls := calls sock @ [SendMsgCall msg data flags]\<rparr>
      in if writable sock
         then (Return (),
               sock'\<lparr>outbound := outbound sock @ [(msg, data)],
                     inbound := inbound sock @ peer sock msg data\<rparr>)
         else if flags = NOBLOCK
         then (Raise (Exc Again ''Resource temporarily unavailable''), sock')
         else (Hang, sock'))"

text \<open>
  Modelled from the spec: \<open>Socket.recv_msg\<close> of the module \<open>transport\<close>. It waits for the next
  reply; with none to come it never returns.
\<close>

definition recv_msg :: "client_socket \<Rightarrow> (string \<times> val) result \<times> client_socket" where
  "recv_msg sock =
     (let sock' = sock\<lparr>calls := calls sock @ [RecvMsgCall]\<rparr>
      in case inbound sock of
           [] \<Rightarrow> (Hang, sock')
         | reply # rest \<Rightarrow> (Return reply, sock'\<lparr>inbound := rest\<rparr>))"

text \<open>\<open>str(x)\<close>: a string is itself; other values are abbreviated as in \<open>py_repr\<close>.\<close>

fun py_str :: "val \<Rightarrow> string" where
  "py_str (VStr s) = s"
| "py_str v = py_repr v"

text \<open>\<open>DbClient._execute\<close>.\<close>

definition execute :: "client_socket \<Rightarrow> string \<Rightarrow> val \<Rightarrow> val result \<times> client_socket" where
  "execute sock msg data =
     (case send_msg sock msg data NOBLOCK of
        (Raise e, sock') \<Rightarrow> (Raise e, sock')
      | (Hang, sock') \<Rightarrow> (Hang, sock')
      | (Return u, sock') \<Rightarrow>
          (case recv_msg sock' of
             (Raise e, sock'') \<Rightarrow> (Raise e, sock'')
           | (Hang, sock'') \<Rightarrow> (Hang, sock'')
           | (Return (status, result), sock'') \<Rightarrow>
               if status = ''OK'' then (Return result, sock'')
               else (Raise (Exc IOError (py_str result)), sock'')))"

text \<open>A method that calls \<open>_execute\<close> and drops what it returned.\<close>

definition discarding :: "val result \<times> client_socket \<Rightarrow> val result \<times> client_socket" where
  "discarding r = (case r of (Return v, sock) \<Rightarrow> (Return VNone, sock) | other \<Rightarrow> other)"

definition add_new_package :: "client_socket \<Rightarrow> val \<Rightarrow> val \<Rightarrow> val result \<times> client_socket" where
  "add_new_package sock package skip = execute sock ''NEWPKG'' (VList [package, skip])"

definition add_new_package_version ::
  "client_socket \<Rightarrow> val \<Rightarrow> val \<Rightarrow> val \<Rightarrow> val \<Rightarrow> val result \<times> client_socket" where
  "add_new_package_version sock package version released skip =
     execute sock ''NEWVER'' (VList [package, version, released, skip])"

definition skip_package :: "client_socket \<Rightarrow> val \<Rightarrow> val \<Rightarrow> val result \<times> client_socket" where
  "skip_package sock package reason =
     discarding (execute sock ''SKIPPKG'' (VList [package, reason]))"

definition skip_package_version ::
  "client_socket \<Rightarrow> val \<Rightarrow> val \<Rightarrow> val \<Rightarrow> val result \<times> client_socket" where
  "skip_package_version sock package version reason =
     discarding (execute sock ''SKIPVER'' (VList [package, version, reason]))"

definition test_package_version ::
  "client_socket \<Rightarrow> val \<Rightarrow> val \<Rightarrow> val result \<times> client_socket" where
  "test_package_version sock package version =
     execute sock ''PKGEXISTS'' (VList [package, version])"

definition log_download :: "client_socket \<Rightarrow> val \<Rightarrow> val result \<times> client_socket" where
  "log_download sock download = discarding (execute sock ''LOGDOWNLOAD'' (VList [download]))"

definition get_build_abis :: "client_socket \<Rightarrow> val result \<times> client_socket" where
  "get_build_abis sock = execute sock ''GETABIS'' VNone"

definition get_pypi_serial :: "client_socket \<Rightarrow> val result \<times> client_socket" where
  "get_pypi_serial sock = execute sock ''GETPYPI'' VNone"

definition set_pypi_serial :: "client_socket \<Rightarrow> val \<Rightarrow> val result \<times> client_socket" where
  "set_pypi_serial sock serial = discarding (execute sock ''SETPYPI'' (VList [serial]))"

definition get_all_packages :: "client_socket \<Rightarrow> val result \<times> client_socket" where
  "get_all_packages sock = execute sock ''ALLPKGS'' VNone"

definition get_all_package_versions :: "client_socket \<Rightarrow> val result \<times> client_socket" where
  "get_all_package_versions sock = execute sock ''ALLVERS'' VNone"

definition get_downloads_recent :: "client_socket \<Rightarrow> val result \<times> client_socket" where
  "get_downloads_recent sock = execute sock ''GETDL'' VNone"

definition get_package_files :: "client_socket \<Rightarrow> val \<Rightarrow> val result \<times> client_socket" where
  "get_package_files sock package = execute sock ''PKGFILES'' (VList [package])"

definition get_project_versions :: "client_socket \<Rightarrow> val \<Rightarrow> val result \<times> client_socket" where
  "get_project_versions sock package = execute sock ''PROJVERS'' (VList [package])"

definition get_project_files :: "client_socket \<Rightarrow> val \<Rightarrow> val result \<times> client_socket" where
  "get_project_files sock package = execute sock ''PROJFILES'' (VList [package])"

definition get_version_files ::
  "client_socket \<Rightarrow> val \<Rightarrow> val \<Rightarrow> val result \<times> client_socket" where
  "get_version_files sock package version =
     execute sock ''VERFILES'' (VList [package, version])"

definition get_version_skip ::
  "client_socket \<Rightarrow> val \<Rightarrow> val \<Rightarrow> val result \<times> client_socket" where
  "get_version_skip sock package version = execute sock ''GETSKIP'' (VList [package, version])"

definition get_file_dependencies :: "client_socket \<Rightarrow> val \<Rightarrow> val result \<times> client_socket" where
  "get_file_dependencies sock filename = execute sock ''FILEDEPS'' (VList [filename])"

definition delete_build :: "client_socket \<Rightarrow> val \<Rightarrow> val \<Rightarrow> val result \<times> client_socket" where
  "delete_build sock package version =
     discarding (execute sock ''DELBUILD'' (VList [package, version]))"


text \<open>
  What the client's methods change besides the socket: the class attribute
  \<open>DbClient.stats_type\<close> (the field names of the named tuple class, once it is built), shared
  by every instance, and the calls \<open>build.logged(build_id)\<close> made on the caller's build
  objects (the object and the identifier of each call).
\<close>

record client_world =
  stats_type :: "string list option"
  logged_calls :: "(val \<times> val) list"

text \<open>
  \<open>DbClient.log_build\<close>. The class of the build object is not among the sources: the call
  of its method \<open>logged\<close> is recorded; a value that is no object has no such method.
\<close>

definition log_build ::
  "client_world \<Rightarrow> client_socket \<Rightarrow> val \<Rightarrow> val result \<times> client_world \<times> client_socket" where
  "log_build w sock build =
     (case execute sock ''LOGBUILD'' (VList [build]) of
        (Raise e, sock') \<Rightarrow> (Raise e, w, sock')
      | (Hang, sock') \<Rightarrow> (Hang, w, sock')
      | (Return build_id, sock') \<Rightarrow>
          (case build of
             VObj c attrs \<Rightarrow>
               (Return VNone, w\<lparr>logged_calls := logged_calls w @ [(build, build_id)]\<rparr>, sock')
           | _ \<Rightarrow> (Raise (Exc AttributeError ''object has no attribute logged''), w, sock')))"

text \<open>\<open>for k, v in rec\<close>: every item of \<open>rec\<close> unpacked into a pair.\<close>

fun unpack_pairs :: "val list \<Rightarrow> py_exc + (val \<times> val) list" where
  "unpack_pairs [] = Inr []"
| "unpack_pairs (item # items) =
     (case py_iter item of
        Inl e \<Rightarrow> Inl e
      | Inr [k, v] \<Rightarrow>
          (case unpack_pairs items of Inl e \<Rightarrow> Inl e | Inr kvs \<Rightarrow> Inr ((k, v) # kvs))
      | Inr _ \<Rightarrow> Inl (Exc ValueError ''wrong number of values to unpack''))"

definition pairs_of :: "val \<Rightarrow> py_exc + (val \<times> val) list" where
  "pairs_of rec = (case py_iter rec of Inl e \<Rightarrow> Inl e | Inr items \<Rightarrow> unpack_pairs items)"

text \<open>
  The functions of Python's standard library that \<open>collections.namedtuple\<close> asks about a
  field name, \<open>str.isidentifier\<close> and \<open>keyword.iskeyword\<close>: parameters.
\<close>

record stdlib =
  isidentifier :: "string \<Rightarrow> bool"
  iskeyword :: "string \<Rightarrow> bool"

text \<open>
  The field names \<open>collections.namedtuple\<close> accepts: identifiers that are no keywords, do not
  start with an underscore and do not repeat.
\<close>

definition valid_field :: "stdlib \<Rightarrow> string \<Rightarrow> bool" where
  "valid_field lib n = (isidentifier lib n \<and> \<not> iskeyword lib n \<and> take 1 n \<noteq> ''_'')"

fun is_str :: "val \<Rightarrow> bool" where
  "is_str (VStr s) = True"
| "is_str v = False"

text \<open>
  \<open>namedtuple('Statistics', tuple(k for k, v in rec))\<close>: the fields of the new class. Each
  name is passed through \<open>str\<close>; the text \<open>str\<close> gives for a value that is no string is no
  identifier.
\<close>

definition namedtuple :: "stdlib \<Rightarrow> val list \<Rightarrow> py_exc + string list" where
  "namedtuple lib ks =
     (let names = map py_str ks
      in if list_all is_str ks \<and> list_all (valid_field lib) names \<and> distinct names
         then Inr names
         else Inl (Exc ValueError ''invalid field names''))"

text \<open>
  \<open>{k: v for k, v in rec}\<close>, read at a string key: a later pair of the same key replaces
  an earlier one.
\<close>

definition dict_of :: "(val \<times> val) list \<Rightarrow> string \<Rightarrow> val option" where
  "dict_of kvs = map_of (rev (map (\<lambda>(k, v). (py_str k, v)) kvs))"

text \<open>
  \<open>stats_type(**{k: v for k, v in rec})\<close> for the class with the fields \<open>t\<close>: the keys must
  be hashable and must be strings, and the keywords must be exactly the fields. The instance
  holds the fields in the order of the class.
\<close>

definition stats_new :: "string list \<Rightarrow> (val \<times> val) list \<Rightarrow> py_exc + val" where
  "stats_new t kvs =
     (if \<not> list_all hashable (map fst kvs) then Inl (Exc TypeError ''unhashable type'')
      else if \<not> list_all is_str (map fst kvs) then Inl (Exc TypeError ''keywords must be strings'')
      else if \<not> list_all (\<lambda>(k, v). py_str k \<in> set t) kvs
      then Inl (Exc TypeError ''unexpected keyword argument'')
      else case those (map (\<lambda>f. map_option (Pair f) (dict_of kvs f)) t) of
             None \<Rightarrow> Inl (Exc TypeError ''missing required positional arguments'')
           | Some attrs \<Rightarrow> Inr (VObj ''Statistics'' attrs))"

text \<open>\<open>DbClient.get_statistics\<close>.\<close>

definition get_statistics ::
  "stdlib \<Rightarrow> client_world \<Rightarrow> client_socket \<Rightarrow>
     val result \<times> client_world \<times> client_socket" where
  "get_statistics lib w sock =
     (case execute sock ''GETSTATS'' VNone of
        (Raise e, sock') \<Rightarrow> (Raise e, w, sock')
      | (Hang, sock') \<Rightarrow> (Hang, w, sock')
      | (Return rec, sock') \<Rightarrow>
          (case (case stats_type w of
                   Some t \<Rightarrow> Inr t
                 | None \<Rightarrow>
                     (case pairs_of rec of
                        Inl e \<Rightarrow> Inl e
                      | Inr kvs \<Rightarrow> namedtuple lib (map fst kvs))) of
             Inl e \<Rightarrow> (Raise e, w, sock')
           | Inr t \<Rightarrow>
               (let w' = w\<lparr>stats_type := Some t\<rparr>
                in case pairs_of rec of
                     Inl e \<Rightarrow> (Raise e, w', sock')
                   | Inr kvs \<Rightarrow>
                       (case stats_new t kvs of
                          Inl e \<Rightarrow> (Raise e, w', sock')
                        | Inr r \<Rightarrow> (Return r, w', sock')))))"

text \<open>The calls a user of \<open>DbClient\<close> can make, and the method each one runs.\<close>

datatype client_call =
    Add_new_package val val
  | Add_new_package_version val val val val
  | Skip_package val val
  | Skip_package_version val val val
  | Test_package_version val val
  | Log_download val
  | Log_build val
  | Get_build_abis
  | Get_pypi_serial
  | Set_pypi_serial val
  | Get_all_packages
  | Get_all_package_versions
  | Get_statistics
  | Get_downloads_recent
  | Get_package_files val
  | Get_project_versions val
  | Get_project_files val
  | Get_version_files val val
  | Get_version_skip val val
  | Get_file_dependencies val
  | Delete_build val val

definition keeping ::
  "client_world \<Rightarrow> val result \<times> client_socket \<Rightarrow> val result \<times> client_world \<times> client_socket" where
  "keeping w r = (fst r, w, snd r)"

fun perform ::
  "stdlib \<Rightarrow> client_world \<Rightarrow> client_socket \<Rightarrow> client_call \<Rightarrow>
     val result \<times> client_world \<times> client_socket" where
  "perform lib w sock (Add_new_package package skip) = keeping w (add_new_package sock package skip)"
| "perform lib w sock (Add_new_package_version package version released skip) =
     keeping w (add_new_package_version sock package version released skip)"
| "perform lib w sock (Skip_package package reason) = keeping w (skip_package sock package reason)"
| "perform lib w sock (Skip_package_version package version reason) =
     keeping w (skip_package_version sock package version reason)"
| "perform lib w sock (Test_package_version package version) =
     keeping w (test_package_version sock package version)"
| "perform lib w sock (Log_download download) = keeping w (log_download sock download)"
| "perform lib w sock (Log_build build) = log_build w sock build"
| "perform lib w sock Get_build_abis = keeping w (get_build_abis sock)"
| "perform lib w sock Get_pypi_serial = keeping w (get_pypi_serial sock)"
| "perform lib w sock (Set_pypi_serial serial) = keeping w (set_pypi_serial sock serial)"
| "perform lib w sock Get_all_packages = keeping w (get_all_packages sock)"
| "perform lib w sock Get_all_package_versions = keeping w (get_all_package_versions sock)"
| "perform lib w sock Get_statistics = get_statistics lib w sock"
| "perform lib w sock Get_downloads_recent = keeping w (get_downloads_recent sock)"
| "perform lib w sock (Get_package_files package) = keeping w (get_package_files sock package)"
| "perform lib w sock (Get_project_versions package) = keeping w (get_project_versions sock package)"
| "perform lib w sock (Get_project_files package) = keeping w (get_project_files sock package)"
| "perform lib w sock (Get_version_files package version) =
     keeping w (get_version_files sock package version)"
| "perform lib w sock (Get_version_skip package version) =
     keeping w (get_version_skip sock package version)"
| "perform lib w sock (Get_file_dependencies filename) =
     keeping w (get_file_dependencies sock filename)"
| "perform lib w sock (Delete_build package version) = keeping w (delete_build sock package version)"

text \<open>The operation name and the data a call puts on the wire.\<close>

fun request_of :: "client_call \<Rightarrow> string \<times> val" where
  "request_of (Add_new_package package skip) = (''NEWPKG'', VList [package, skip])"
| "request_of (Add_new_package_version package version released skip) =
     (''NEWVER'', VList [package, version, released, skip])"
| "request_of (Skip_package package reason) = (''SKIPPKG'', VList [package, reason])"
| "request_of (Skip_package_version package version reason) =
     (''SKIPVER'', VList [package, version, reason])"
| "request_of (Test_package_version package version) = (''PKGEXISTS'', VList [package, version])"
| "request_of (Log_download download) = (''LOGDOWNLOAD'', VList [download])"
| "request_of (Log_build build) = (''LOGBUILD'', VList [build])"
| "request_of Get_build_abis = (''GETABIS'', VNone)"
| "request_of Get_pypi_serial = (''GETPYPI'', VNone)"
| "request_of (Set_pypi_serial serial) = (''SETPYPI'', VList [serial])"
| "request_of Get_all_packages = (''ALLPKGS'', VNone)"
| "request_of Get_all_package_versions = (''ALLVERS'', VNone)"
| "request_of Get_statistics = (''GETSTATS'', VNone)"
| "request_of Get_downloads_recent = (''GETDL'', VNone)"
| "request_of (Get_package_files package) = (''PKGFILES'', VList [package])"
| "request_of (Get_project_versions package) = (''PROJVERS'', VList [package])"
| "request_of (Get_project_files package) = (''PROJFILES'', VList [package])"
| "request_of (Get_version_files package version) = (''VERFILES'', VList [package, version])"
| "request_of (Get_version_skip package version) = (''GETSKIP'', VList [package, version])"
| "request_of (Get_file_dependencies filename) = (''FILEDEPS'', VList [filename])"
| "request_of (Delete_build package version) = (''DELBUILD'', VList [package, version])"

section \<open>Client and worker together\<close>

text \<open>
  Modelled from the spec: the broker and the wire, which are not among the sources. A
  request reaches a worker as the three parts routing address, operation name and
  arguments; the worker's reply envelope reaches the client as its status and payload.
\<close>

definition request_envelope :: "val \<Rightarrow> string \<Rightarrow> val \<Rightarrow> val" where
  "request_envelope address msg data = VList [address, VStr msg, data]"

definition oracle_peer ::
  "'db database \<Rightarrow> val \<Rightarrow> 'db the_oracle \<Rightarrow> string \<Rightarrow> val \<Rightarrow> (string \<times> val) list" where
  "oracle_peer D address self msg data =
     map (\<lambda>(a, status, payload). (status, payload))
       (drop (length (replies (trace self)))
         (replies (trace (snd (handle_db_request D self (Inr (request_envelope address msg data)))))))"

text \<open>A store whose every method gives the outcome \<open>r\<close> and leaves the store as it is.\<close>

definition const_store :: "py_exc + val \<Rightarrow> 'db database" where
  "const_store r =
     \<lparr>db_get_all_packages = (\<lambda>s. (r, s)),
      db_get_all_package_versions = (\<lambda>s. (r, s)),
      db_add_new_package = (\<lambda>package s. (r, s)),
      db_add_new_package_version = (\<lambda>package version released skip s. (r, s)),
      db_skip_package = (\<lambda>package reason s. (r, s)),
      db_skip_package_version = (\<lambda>package version reason s. (r, s)),
      db_log_download = (\<lambda>download s. (r, s)),
      db_log_build = (\<lambda>build s. (r, s)),
      db_delete_build = (\<lambda>package version s. (r, s)),
      db_get_package_files = (\<lambda>package s. (r, s)),
      db_get_project_versions = (\<lambda>package s. (r, s)),
      db_get_project_files = (\<lambda>package s. (r, s)),
      db_get_version_files = (\<lambda>package version s. (r, s)),
      db_get_version_skip = (\<lambda>package version s. (r, s)),
      db_test_package_version = (\<lambda>package version s. (r, s)),
      db_get_build_abis = (\<lambda>s. (r, s)),
      db_get_pypi_serial = (\<lambda>s. (r, s)),
      db_set_pypi_serial = (\<lambda>serial s. (r, s)),
      db_get_statistics = (\<lambda>s. (r, s)),
      db_get_downloads_recent = (\<lambda>s. (r, s)),
      db_get_file_dependencies = (\<lambda>filename s. (r, s))\<rparr>"

text \<open>A freshly named worker on a store without state, for evaluating the model.\<close>

definition worker0 :: "unit the_oracle" where
  "worker0 = \<lparr>name = ''master.the_oracle_1'', db = (), trace = []\<rparr>"

text \<open>A client socket that can send, with nothing queued and a far end that never replies.\<close>

definition socket0 :: client_socket where
  "socket0 = \<lparr>writable = True, peer = (\<lambda>msg data. []), outbound = [], inbound = [], calls = []\<rparr>"

text \<open>
  Stores for evaluating the model: one whose \<open>log_build\<close> raises a constraint violation
  described as "duplicate build", one whose \<open>log_build\<close> raises an exception without a
  description, and a build object.
\<close>

definition duplicate_build_store :: "unit database" where
  "duplicate_build_store =
     (const_store (Inr VNone))
       \<lparr>db_log_build := (\<lambda>build s. (Inl (Exc (OtherException ''IntegrityError'') ''duplicate build''), s))\<rparr>"

definition silent_failure_store :: "unit database" where
  "silent_failure_store =
     (const_store (Inr VNone))
       \<lparr>db_log_build := (\<lambda>build s. (Inl (Exc (OtherException ''AssertionError'') ''''), s))\<rparr>"

definition build0 :: val where
  "build0 = VObj ''BuildState'' [(''package'', VStr ''foo''), (''build_id'', VNone)]"

text \<open>
  The messages a worker put on its socket, and the operation name and the payload a message
  carries: a bare frame sent with \<open>send\<close> carries neither.
\<close>

fun is_message :: "event \<Rightarrow> bool" where
  "is_message (Sent frame) = True"
| "is_message (SentAddrMsg address msg data) = True"
| "is_message ev = False"

fun operation_of :: "event \<Rightarrow> string option" where
  "operation_of (SentAddrMsg address msg data) = Some msg"
| "operation_of ev = None"

fun payload_of :: "event \<Rightarrow> val option" where
  "payload_of (SentAddrMsg address msg data) = Some data"
| "payload_of ev = None"

text \<open>A store whose \<open>log_build\<close> gives the build the identifier 42.\<close>

definition logging_store :: "unit database" where
  "logging_store =
     (const_store (Inr VNone))
       \<lparr>db_log_build := (\<lambda>build s.
          (Inr (VObj ''BuildState'' [(''package'', VStr ''foo''), (''build_id'', VInt 42)]), s))\<rparr>"

definition world0 :: client_world where
  "world0 = \<lparr>stats_type = None, logged_calls = []\<rparr>"

text \<open>A store constructor that connects, and a configuration, for evaluating the model.\<close>

definition open_store :: "val \<Rightarrow> py_exc + unit" where
  "open_store d = Inr ()"

definition config0 :: config where
  "config0 = \<lparr>dsn = VStr ''postgres:///piwheels'', db_queue = ''inproc://db''\<rparr>"

text \<open>
  Constructing one worker after another in a process: the class attribute
  \<open>TheOracle.instance\<close> is handed from each construction to the next. A construction that
  fails has raised.
\<close>

fun construct_all ::
  "(val \<Rightarrow> py_exc + 'db) \<Rightarrow> string \<Rightarrow> nat \<Rightarrow> config list \<Rightarrow> nat \<times> 'db the_oracle result list" where
  "construct_all Database ORACLE_QUEUE n [] = (n, [])"
| "construct_all Database ORACLE_QUEUE n (cfg # cfgs) =
     (case init Database ORACLE_QUEUE n cfg of
        (n', r) \<Rightarrow>
          (case construct_all Database ORACLE_QUEUE n' cfgs of
             (n'', rs) \<Rightarrow> (n'', r # rs)))"

text \<open>The workers that were constructed, in the order of their construction.\<close>

fun constructed :: "'a result list \<Rightarrow> 'a list" where
  "constructed [] = []"
| "constructed (Return x # rs) = x # constructed rs"
| "constructed (r # rs) = constructed rs"

text \<open>
  A sequence of \<open>get_statistics\<close> calls in one process, each on the socket of some client
  instance: the class attribute is handed from each call to the next.
\<close>

fun get_statistics_calls ::
  "stdlib \<Rightarrow> client_world \<Rightarrow> client_socket list \<Rightarrow> client_world \<times> val result list" where
  "get_statistics_calls lib w [] = (w, [])"
| "get_statistics_calls lib w (sock # socks) =
     (case get_statistics lib w sock of
        (r, w', sock') \<Rightarrow>
          (case get_statistics_calls lib w' socks of (w'', rs) \<Rightarrow> (w'', r # rs)))"

text \<open>
  A standard library for evaluating the model: its identifiers are those of ASCII letters,
  digits and underscores, on which it agrees with \<open>str.isidentifier\<close>.
\<close>

definition is_alpha :: "char \<Rightarrow> bool" where
  "is_alpha c = (let n = (of_char c :: nat) in (65 \<le> n \<and> n \<le> 90) \<or> (97 \<le> n \<and> n \<le> 122))"

definition is_digit :: "char \<Rightarrow> bool" where
  "is_digit c = (let n = (of_char c :: nat) in 48 \<le> n \<and> n \<le> 57)"

fun ascii_isidentifier :: "string \<Rightarrow> bool" where
  "ascii_isidentifier [] = False"
| "ascii_isidentifier (c # cs) =
     ((is_alpha c \<or> c = CHR ''_'') \<and> list_all (\<lambda>x. is_alpha x \<or> is_digit x \<or> x = CHR ''_'') cs)"

definition py_keywords :: "string list" where
  "py_keywords =
     [''False'', ''None'', ''True'', ''and'', ''as'', ''assert'', ''async'', ''await'',
      ''break'', ''class'', ''continue'', ''def'', ''del'', ''elif'', ''else'', ''except'',
      ''finally'', ''for'', ''from'', ''global'', ''if'', ''import'', ''in'', ''is'',
      ''lambda'', ''nonlocal'', ''not'', ''or'', ''pass'', ''raise'', ''return'', ''try'',
      ''while'', ''with'', ''yield'']"

definition ascii_lib :: stdlib where
  "ascii_lib = \<lparr>isidentifier = ascii_isidentifier, iskeyword = (\<lambda>n. n \<in> set py_keywords)\<rparr>"

text \<open>A far end that answers every request with the statistics of two fields.\<close>

definition stats_peer :: "string \<Rightarrow> val \<Rightarrow> (string \<times> val) list" where
  "stats_peer msg data =
     [(''OK'', VList [VTuple [VStr ''downloads_last_month'', VInt 100],
                      VTuple [VStr ''packages_count'', VInt 500]])]"

section \<open>Properties\<close>

subsection \<open>Reply envelopes in a trace\<close>

lemma replies_append: "replies (xs @ ys) = replies xs @ replies ys"
  by (simp add: replies_def map_filter_def)

lemma replies_simps [simp]:
  "replies [] = []"
  "replies (SentAddrMsg a st p # tr) = (a, st, p) # replies tr"
  "replies (LoggedError f m # tr) = replies tr"
  "replies (LoggedException e # tr) = replies tr"
  "replies (Sent v # tr) = replies tr"
  "replies (DbOpened v # tr) = replies tr"
  "replies (SocketCreated # tr) = replies tr"
  "replies (HwmSet n # tr) = replies tr"
  "replies (Connected q # tr) = replies tr"
  "replies (Registered # tr) = replies tr"
  by (simp_all add: replies_def map_filter_def)

subsection \<open>The handle step after a successful receive\<close>

lemma handle_received:
  assumes "unpack3 parts = Inr (address, msg, data)"
  shows "handle_db_request D self (Inr parts) =
     (case (case lookup_handler D msg of
              Inl exc \<Rightarrow> (Inl exc, db self)
            | Inr handler \<Rightarrow> call_handler handler data (db self)) of
        (Inl exc, s) \<Rightarrow>
          (Return (),
           self\<lparr>db := s,
             trace := trace self @
               [LoggedError ''Error handling db request: %s'' msg,
                SentAddrMsg address ''ERROR'' (VStr (str_exc exc))]\<rparr>)
      | (Inr result, s) \<Rightarrow>
          (Return (),
           self\<lparr>db := s, trace := trace self @ [SentAddrMsg address ''OK'' result]\<rparr>))"
  using assms by (simp add: handle_db_request_def)

lemma unpack3_envelope [simp]:
  "unpack3 (request_envelope address msg data) = Inr (address, VStr msg, data)"
  by (simp add: unpack3_def request_envelope_def)

text \<open>
  Claim C1. Whenever the receive step yields a routing address, an operation name and
  arguments, the handle step returns, and on the way it has sent exactly one reply envelope:
  the trace grows by events that are no replies followed by one reply, which is the last
  event before the handler returns and carries the very address that was received. The
  status is \<open>OK\<close> or \<open>ERROR\<close>. This holds for every store and every message: a handler that
  succeeds, one that raises, and a name that is no key of the dictionary.
\<close>

theorem reply_cardinality:
  assumes "unpack3 parts = Inr (address, msg, data)"
  shows "\<exists>self' status payload logged.
           handle_db_request D self (Inr parts) = (Return (), self') \<and>
           trace self' = trace self @ logged @ [SentAddrMsg address status payload] \<and>
           replies logged = [] \<and>
           replies (trace self') = replies (trace self) @ [(address, status, payload)] \<and>
           (status = ''OK'' \<or> status = ''ERROR'')"
proof -
  obtain outcome s where call:
    "(case lookup_handler D msg of
        Inl exc \<Rightarrow> (Inl exc, db self)
      | Inr handler \<Rightarrow> call_handler handler data (db self)) = (outcome, s)"
    by fastforce
  show ?thesis
  proof (cases outcome)
    case (Inl exc)
    let ?logged = "[LoggedError ''Error handling db request: %s'' msg]"
    from Inl call have "handle_db_request D self (Inr parts) =
        (Return (), self\<lparr>db := s, trace := trace self @ ?logged @
           [SentAddrMsg address ''ERROR'' (VStr (str_exc exc))]\<rparr>)"
      by (simp add: handle_received [OF assms])
    then show ?thesis
      by (intro exI [of _ "self\<lparr>db := s, trace := trace self @ ?logged @
             [SentAddrMsg address ''ERROR'' (VStr (str_exc exc))]\<rparr>"]
           exI [of _ "''ERROR''"] exI [of _ "VStr (str_exc exc)"] exI [of _ ?logged])
         (simp add: replies_append)
  next
    case (Inr result)
    from Inr call have "handle_db_request D self (Inr parts) =
        (Return (), self\<lparr>db := s, trace := trace self @ [] @
           [SentAddrMsg address ''OK'' result]\<rparr>)"
      by (simp add: handle_received [OF assms])
    then show ?thesis
      by (intro exI [of _ "self\<lparr>db := s, trace := trace self @ [] @
             [SentAddrMsg address ''OK'' result]\<rparr>"]
           exI [of _ "''OK''"] exI [of _ result] exI [of _ "[]"])
         (simp add: replies_append)
  qed
qed

theorem reply_cardinality_witness:
  "unpack3 (VList [VBytes ''c1'', VStr ''NEWPKG'', VList [VStr ''foo'', VNone]]) =
     Inr (VBytes ''c1'', VStr ''NEWPKG'', VList [VStr ''foo'', VNone]) \<and>
   (\<exists>self' status payload logged.
      handle_db_request (const_store (Inr (VInt 7))) worker0
        (Inr (VList [VBytes ''c1'', VStr ''NEWPKG'', VList [VStr ''foo'', VNone]])) =
        (Return (), self') \<and>
      trace self' = trace worker0 @ logged @ [SentAddrMsg (VBytes ''c1'') status payload] \<and>
      replies logged = [] \<and>
      replies (trace self') = replies (trace worker0) @ [(VBytes ''c1'', status, payload)] \<and>
      (status = ''OK'' \<or> status = ''ERROR''))"
proof -
  have h: "unpack3 (VList [VBytes ''c1'', VStr ''NEWPKG'', VList [VStr ''foo'', VNone]]) =
     Inr (VBytes ''c1'', VStr ''NEWPKG'', VList [VStr ''foo'', VNone])"
    by (simp add: unpack3_def)
  from reply_cardinality [OF h, of "const_store (Inr (VInt 7))" worker0] h
  show ?thesis by blast
qed

subsection \<open>Looking up a handler, and the client's view of a reply\<close>

lemma handlers_keys: "map fst (handlers D) = catalog"
  by (simp add: handlers_def catalog_def)

lemma lookup_unknown:
  assumes "X \<notin> set catalog"
  shows "lookup_handler D (VStr X) = Inl (Exc KeyError (py_repr (VStr X)))"
proof -
  from assms have "X \<notin> fst ` set (handlers D)"
    using handlers_keys [of D] by (metis set_map)
  then have "map_of (handlers D) X = None"
    by (simp add: map_of_eq_None_iff)
  then show ?thesis by (simp add: lookup_handler_def)
qed

lemma lookup_known:
  assumes "map_of (handlers D) X = Some handler"
  shows "lookup_handler D (VStr X) = Inr handler"
  using assms by (simp add: lookup_handler_def)

lemma execute_reply:
  assumes "writable sock" and "inbound sock = []" and "peer sock msg data = (status, payload) # rest"
  shows "execute sock msg data =
           (if status = ''OK'' then Return payload else Raise (Exc IOError (py_str payload)),
            sock\<lparr>calls := calls sock @ [SendMsgCall msg data NOBLOCK, RecvMsgCall],
                  outbound := outbound sock @ [(msg, data)], inbound := rest\<rparr>)"
  using assms by (simp add: execute_def send_msg_def recv_msg_def Let_def)

lemma oracle_peer_reply:
  assumes "handle_db_request D self (Inr (request_envelope address msg data)) =
             (r, self\<lparr>db := s, trace := trace self @ logged @ [SentAddrMsg address status payload]\<rparr>)"
    and "replies logged = []"
  shows "oracle_peer D address self msg data = [(status, payload)]"
  using assms by (simp add: oracle_peer_def replies_append)

subsection \<open>Unknown operations\<close>

text \<open>
  Claim C3. A request whose operation name is no key of the worker's dictionary does not
  leave the handler with an exception and is not logged as a failed receive: the handler
  returns, the store is untouched, and the trace grows by the same two events a raising
  handler leaves, the error log entry and one reply of status \<open>ERROR\<close> to the address received
  (its payload is the text of the \<open>KeyError\<close>). A client whose request this worker answers
  gets that reply, and its call raises \<open>IOError\<close> with that text.
\<close>

theorem unknown_operation:
  assumes "X \<notin> set catalog"
    and "writable sock" and "inbound sock = []" and "peer sock = oracle_peer D address self"
  shows "handle_db_request D self (Inr (request_envelope address X data)) =
           (Return (),
            self\<lparr>trace := trace self @
              [LoggedError ''Error handling db request: %s'' (VStr X),
               SentAddrMsg address ''ERROR'' (VStr (py_repr (VStr X)))]\<rparr>) \<and>
         fst (execute sock X data) = Raise (Exc IOError (py_repr (VStr X)))"
proof -
  have step: "handle_db_request D self (Inr (request_envelope address X data)) =
           (Return (),
            self\<lparr>db := db self, trace := trace self @
              [LoggedError ''Error handling db request: %s'' (VStr X)] @
              [SentAddrMsg address ''ERROR'' (VStr (py_repr (VStr X)))]\<rparr>)"
    by (simp add: handle_received [OF unpack3_envelope] lookup_unknown [OF assms(1)])
  from oracle_peer_reply [OF step] assms(4)
  have "peer sock X data = [(''ERROR'', VStr (py_repr (VStr X)))]" by simp
  from execute_reply [OF assms(2,3) this] step show ?thesis by simp
qed


theorem unknown_operation_witness:
  "''NOSUCHOP'' \<notin> set catalog \<and>
   handle_db_request (const_store (Inr VNone)) worker0
      (Inr (request_envelope (VBytes ''c1'') ''NOSUCHOP'' (VList []))) =
     (Return (),
      worker0\<lparr>trace :=
        [LoggedError ''Error handling db request: %s'' (VStr ''NOSUCHOP''),
         SentAddrMsg (VBytes ''c1'') ''ERROR'' (VStr (py_repr (VStr ''NOSUCHOP'')))]\<rparr>) \<and>
   fst (execute (socket0\<lparr>peer := oracle_peer (const_store (Inr VNone)) (VBytes ''c1'') worker0\<rparr>)
          ''NOSUCHOP'' (VList [])) =
     Raise (Exc IOError (py_repr (VStr ''NOSUCHOP'')))"
proof -
  have h: "''NOSUCHOP'' \<notin> set catalog" by (simp add: catalog_def)
  from unknown_operation [OF h, of "socket0\<lparr>peer := oracle_peer (const_store (Inr VNone)) (VBytes ''c1'') worker0\<rparr>"
      "const_store (Inr VNone)" "VBytes ''c1''" worker0 "VList []"] h
  show ?thesis by (simp add: socket0_def worker0_def)
qed

lemma py_iter_error: "py_iter v = Inl e \<Longrightarrow> e = Exc TypeError ''object is not iterable''"
  by (cases v) auto

lemma unpack3_error: "unpack3 v = Inl e \<Longrightarrow> \<not> isinstance_IOError e"
  by (auto simp: unpack3_def split: sum.splits list.splits dest: py_iter_error)

lemma handle_received_cases:
  assumes "unpack3 parts = Inr (address, msg, data)"
  shows "(\<exists>exc s. handle_db_request D self (Inr parts) =
            (Return (),
             self\<lparr>db := s,
               trace := trace self @
                 [LoggedError ''Error handling db request: %s'' msg,
                  SentAddrMsg address ''ERROR'' (VStr (str_exc exc))]\<rparr>)) \<or>
         (\<exists>result s. handle_db_request D self (Inr parts) =
            (Return (),
             self\<lparr>db := s, trace := trace self @ [SentAddrMsg address ''OK'' result]\<rparr>))"
proof -
  obtain outcome s where call:
    "(case lookup_handler D msg of
        Inl exc \<Rightarrow> (Inl exc, db self)
      | Inr handler \<Rightarrow> call_handler handler data (db self)) = (outcome, s)"
    by fastforce
  show ?thesis
  proof (cases outcome)
    case (Inl exc)
    with call have "handle_db_request D self (Inr parts) =
        (Return (),
         self\<lparr>db := s,
           trace := trace self @
             [LoggedError ''Error handling db request: %s'' msg,
              SentAddrMsg address ''ERROR'' (VStr (str_exc exc))]\<rparr>)"
      by (simp add: handle_received [OF assms])
    then show ?thesis by blast
  next
    case (Inr result)
    with call have "handle_db_request D self (Inr parts) =
        (Return (),
         self\<lparr>db := s, trace := trace self @ [SentAddrMsg address ''OK'' result]\<rparr>)"
      by (simp add: handle_received [OF assms])
    then show ?thesis by blast
  qed
qed

subsection \<open>Failures of the receive\<close>

text \<open>
  Claim C4, as amended. When \<open>recv_multipart\<close> raises an \<open>IOError\<close>, the exception is logged,
  nothing is sent, the worker is otherwise unchanged and the handler returns, so the loop
  goes on. Among the steps from which the handler returns, this is the only one that sends
  no reply.
\<close>

theorem receive_failure:
  "(isinstance_IOError e \<longrightarrow>
      handle_db_request D self (Inl e) =
        (Return (), self\<lparr>trace := trace self @ [LoggedException e]\<rparr>)) \<and>
   (handle_db_request D self received = (Return (), self') \<and>
      replies (trace self') = replies (trace self) \<longrightarrow>
      (\<exists>e'. received = Inl e' \<and> isinstance_IOError e'))"
proof (intro conjI impI)
  assume "isinstance_IOError e"
  then show "handle_db_request D self (Inl e) =
        (Return (), self\<lparr>trace := trace self @ [LoggedException e]\<rparr>)"
    by (simp add: handle_db_request_def)
next
  assume a: "handle_db_request D self received = (Return (), self') \<and>
      replies (trace self') = replies (trace self)"
  show "\<exists>e'. received = Inl e' \<and> isinstance_IOError e'"
  proof (cases received)
    case (Inl e')
    with a show ?thesis
      by (cases "isinstance_IOError e'") (simp_all add: handle_db_request_def)
  next
    case (Inr parts)
    show ?thesis
    proof (cases "unpack3 parts")
      case (Inl e')
      then have "\<not> isinstance_IOError e'"
        by (rule unpack3_error)
      with Inl Inr a show ?thesis by (simp add: handle_db_request_def)
    next
      case (Inr t)
      obtain address msg data where t: "t = (address, msg, data)" by (cases t) auto
      from handle_received_cases [OF Inr [unfolded t], of D self] \<open>received = Inr parts\<close> a
      show ?thesis by (auto simp: replies_append)
    qed
  qed
qed

theorem receive_failure_witness:
  "isinstance_IOError (Exc IOError ''recv failed'') \<and>
   handle_db_request (const_store (Inr VNone)) worker0 (Inl (Exc IOError ''recv failed'')) =
     (Return (), worker0\<lparr>trace := trace worker0 @ [LoggedException (Exc IOError ''recv failed'')]\<rparr>) \<and>
   replies (trace (worker0\<lparr>trace := trace worker0 @ [LoggedException (Exc IOError ''recv failed'')]\<rparr>)) =
     replies (trace worker0) \<and>
   (\<exists>e'. (Inl (Exc IOError ''recv failed'') :: py_exc + val) = Inl e' \<and> isinstance_IOError e')"
  using receive_failure [of "Exc IOError ''recv failed''" "const_store (Inr VNone)" worker0
      "Inl (Exc IOError ''recv failed'')"
      "worker0\<lparr>trace := trace worker0 @ [LoggedException (Exc IOError ''recv failed'')]\<rparr>"]
  by (simp add: worker0_def)

text \<open>
  Claim C4, as stated, fails for a malformed multipart message: one with two parts makes
  the unpacking raise \<open>ValueError\<close>, which \<open>except IOError\<close> does not catch. The exception
  leaves the handler and nothing is logged.
\<close>

theorem malformed_message_counterexample:
  "handle_db_request (const_store (Inr VNone)) worker0
      (Inr (VList [VBytes ''c1'', VStr ''NEWPKG''])) =
     (Raise (Exc ValueError ''wrong number of values to unpack''), worker0)"
  by (simp add: handle_db_request_def unpack3_def)

subsection \<open>The client's calls in terms of \<open>_execute\<close>\<close>

lemma execute_outcome:
  "fst (execute sock msg data) =
     (if writable sock
      then (case inbound sock @ peer sock msg data of
              [] \<Rightarrow> Hang
            | (status, result) # rest \<Rightarrow>
                if status = ''OK'' then Return result else Raise (Exc IOError (py_str result)))
      else Raise (Exc Again ''Resource temporarily unavailable''))"
  by (simp add: execute_def send_msg_def recv_msg_def Let_def split: list.splits)

lemma execute_socket:
  "snd (execute sock msg data) =
     (if writable sock
      then (case inbound sock @ peer sock msg data of
              [] \<Rightarrow> sock\<lparr>calls := calls sock @ [SendMsgCall msg data NOBLOCK, RecvMsgCall],
                         outbound := outbound sock @ [(msg, data)],
                         inbound := []\<rparr>
            | reply # rest \<Rightarrow>
                sock\<lparr>calls := calls sock @ [SendMsgCall msg data NOBLOCK, RecvMsgCall],
                     outbound := outbound sock @ [(msg, data)],
                     inbound := rest\<rparr>)
      else sock\<lparr>calls := calls sock @ [SendMsgCall msg data NOBLOCK]\<rparr>)"
  by (simp add: execute_def send_msg_def recv_msg_def Let_def split: list.splits)

lemma discarding_snd [simp]: "snd (discarding r) = snd r"
  by (cases r; cases "fst r") (simp_all add: discarding_def)

lemma discarding_raises: "fst r = Raise e \<Longrightarrow> fst (discarding r) = Raise e"
  by (cases r) (simp add: discarding_def)

lemma log_build_socket:
  "snd (snd (log_build w sock build)) = snd (execute sock ''LOGBUILD'' (VList [build]))"
  by (cases "execute sock ''LOGBUILD'' (VList [build])"; cases "fst (execute sock ''LOGBUILD'' (VList [build]))"; cases build)
     (simp_all add: log_build_def)

lemma log_build_raises:
  assumes "fst (execute sock ''LOGBUILD'' (VList [build])) = Raise e"
  shows "fst (log_build w sock build) = Raise e" and "fst (snd (log_build w sock build)) = w"
  using assms by (cases "execute sock ''LOGBUILD'' (VList [build])"; simp add: log_build_def)+

lemma get_statistics_socket:
  "snd (snd (get_statistics lib w sock)) = snd (execute sock ''GETSTATS'' VNone)"
proof (cases "execute sock ''GETSTATS'' VNone")
  case (Pair r sock')
  show ?thesis
  proof (cases r)
    case (Return rec)
    with Pair show ?thesis
      by (simp add: get_statistics_def Let_def split: sum.splits option.splits)
  qed (use Pair in \<open>simp_all add: get_statistics_def\<close>)
qed

lemma get_statistics_raises:
  assumes "fst (execute sock ''GETSTATS'' VNone) = Raise e"
  shows "fst (get_statistics lib w sock) = Raise e" and "fst (snd (get_statistics lib w sock)) = w"
  using assms by (cases "execute sock ''GETSTATS'' VNone"; simp add: get_statistics_def)+

lemmas stub_defs =
  add_new_package_def add_new_package_version_def skip_package_def skip_package_version_def
  test_package_version_def log_download_def get_build_abis_def get_pypi_serial_def
  set_pypi_serial_def get_all_packages_def get_all_package_versions_def
  get_downloads_recent_def get_package_files_def get_project_versions_def
  get_project_files_def get_version_files_def get_version_skip_def
  get_file_dependencies_def delete_build_def

lemma perform_socket:
  "snd (snd (perform lib w sock c)) = snd (execute sock (fst (request_of c)) (snd (request_of c)))"
  by (cases c) (simp_all add: keeping_def stub_defs log_build_socket get_statistics_socket)

lemma perform_raises:
  assumes "fst (execute sock (fst (request_of c)) (snd (request_of c))) = Raise e"
  shows "fst (perform lib w sock c) = Raise e" and "fst (snd (perform lib w sock c)) = w"
  using assms
  by (cases c; simp add: keeping_def stub_defs discarding_raises log_build_raises
        get_statistics_raises)+

subsection \<open>Error conversion\<close>

lemma then_apply_raise [simp]: "then_apply (Inl e, s) f = (Inl e, s)"
  by (simp add: then_apply_def)

lemma returning_None_raise [simp]: "returning_None (Inl e, s) = (Inl e, s)"
  by (simp add: returning_None_def)

text \<open>No handler catches what the store raises.\<close>

lemma store_failure_propagates:
  "db_get_all_packages D s = (Inl e, s') \<Longrightarrow> do_allpkgs D [] s = (Inl e, s')"
  "db_get_all_package_versions D s = (Inl e, s') \<Longrightarrow> do_allvers D [] s = (Inl e, s')"
  "db_add_new_package D package s = (Inl e, s') \<Longrightarrow> do_newpkg D [package, skip] s = (Inl e, s')"
  "db_add_new_package_version D package version released skip s = (Inl e, s') \<Longrightarrow>
     do_newver D [package, version, released, skip] s = (Inl e, s')"
  "db_skip_package D package reason s = (Inl e, s') \<Longrightarrow>
     do_skippkg D [package, reason] s = (Inl e, s')"
  "db_skip_package_version D package version reason s = (Inl e, s') \<Longrightarrow>
     do_skipver D [package, version, reason] s = (Inl e, s')"
  "db_log_download D download s = (Inl e, s') \<Longrightarrow> do_logdownload D [download] s = (Inl e, s')"
  "db_log_build D build s = (Inl e, s') \<Longrightarrow> do_logbuild D [build] s = (Inl e, s')"
  "db_delete_build D package version s = (Inl e, s') \<Longrightarrow>
     do_delbuild D [package, version] s = (Inl e, s')"
  "db_get_package_files D package s = (Inl e, s') \<Longrightarrow> do_pkgfiles D [package] s = (Inl e, s')"
  "db_get_project_versions D package s = (Inl e, s') \<Longrightarrow> do_projvers D [package] s = (Inl e, s')"
  "db_get_project_files D package s = (Inl e, s') \<Longrightarrow> do_projfiles D [package] s = (Inl e, s')"
  "db_get_version_files D package version s = (Inl e, s') \<Longrightarrow>
     do_verfiles D [package, version] s = (Inl e, s')"
  "db_get_version_skip D package version s = (Inl e, s') \<Longrightarrow>
     do_getskip D [package, version] s = (Inl e, s')"
  "db_test_package_version D package version s = (Inl e, s') \<Longrightarrow>
     do_pkgexists D [package, version] s = (Inl e, s')"
  "db_get_build_abis D s = (Inl e, s') \<Longrightarrow> do_getabis D [] s = (Inl e, s')"
  "db_get_pypi_serial D s = (Inl e, s') \<Longrightarrow> do_getpypi D [] s = (Inl e, s')"
  "db_set_pypi_serial D serial s = (Inl e, s') \<Longrightarrow> do_setpypi D [serial] s = (Inl e, s')"
  "db_get_statistics D s = (Inl e, s') \<Longrightarrow> do_getstats D [] s = (Inl e, s')"
  "db_get_downloads_recent D s = (Inl e, s') \<Longrightarrow> do_getdl D [] s = (Inl e, s')"
  "db_get_file_dependencies D filename s = (Inl e, s') \<Longrightarrow>
     do_filedeps D [filename] s = (Inl e, s')"
  by (simp_all add: do_allpkgs_def do_allvers_def do_newpkg_def do_newver_def do_skippkg_def
      do_skipver_def do_logdownload_def do_logbuild_def do_delbuild_def do_pkgfiles_def
      do_projvers_def do_projfiles_def do_verfiles_def do_getskip_def do_pkgexists_def
      do_getabis_def do_getpypi_def do_setpypi_def do_getstats_def do_getdl_def do_filedeps_def)

lemma handle_raising:
  assumes "map_of (handlers D) X = Some handler"
    and "call_handler handler data (db self) = (Inl exc, s)"
  shows "handle_db_request D self (Inr (request_envelope address X data)) =
           (Return (),
            self\<lparr>db := s,
              trace := trace self @
                [LoggedError ''Error handling db request: %s'' (VStr X)] @
                [SentAddrMsg address ''ERROR'' (VStr (str_exc exc))]\<rparr>)"
  using assms by (simp add: handle_received [OF unpack3_envelope] lookup_known)

text \<open>
  Claim C2, as amended. For a recognised operation \<open>X\<close> whose handler raises \<open>exc\<close> (the
  store raising inside it included), the worker logs the error and replies with the status
  \<open>ERROR\<close> and the payload \<open>str(exc)\<close>. The client call that sent \<open>X\<close> then raises an
  \<open>IOError\<close> whose message is that payload: the class of \<open>exc\<close> does not cross the boundary.
\<close>

theorem error_conversion:
  assumes "map_of (handlers D) X = Some handler"
    and "call_handler handler data (db self) = (Inl exc, s)"
    and "request_of c = (X, data)"
    and "writable sock" and "inbound sock = []" and "peer sock = oracle_peer D address self"
  shows "handle_db_request D self (Inr (request_envelope address X data)) =
           (Return (),
            self\<lparr>db := s,
              trace := trace self @
                [LoggedError ''Error handling db request: %s'' (VStr X),
                 SentAddrMsg address ''ERROR'' (VStr (str_exc exc))]\<rparr>) \<and>
         fst (perform lib w sock c) = Raise (Exc IOError (str_exc exc))"
proof -
  note step = handle_raising [OF assms(1,2), of address]
  from oracle_peer_reply [OF step] assms(6)
  have "peer sock X data = [(''ERROR'', VStr (str_exc exc))]" by simp
  with assms(3,4,5)
  have "fst (execute sock (fst (request_of c)) (snd (request_of c))) =
          Raise (Exc IOError (str_exc exc))"
    by (simp add: execute_outcome)
  from perform_raises(1) [OF this] step show ?thesis by simp
qed

theorem error_conversion_witness:
  "map_of (handlers duplicate_build_store) ''LOGBUILD'' = Some (do_logbuild duplicate_build_store) \<and>
   call_handler (do_logbuild duplicate_build_store) (VList [build0]) (db worker0) =
     (Inl (Exc (OtherException ''IntegrityError'') ''duplicate build''), ()) \<and>
   handle_db_request duplicate_build_store worker0
      (Inr (request_envelope (VBytes ''c1'') ''LOGBUILD'' (VList [build0]))) =
     (Return (),
      worker0\<lparr>db := (),
        trace := trace worker0 @
          [LoggedError ''Error handling db request: %s'' (VStr ''LOGBUILD''),
           SentAddrMsg (VBytes ''c1'') ''ERROR'' (VStr ''duplicate build'')]\<rparr>) \<and>
   fst (perform ascii_lib \<lparr>stats_type = None, logged_calls = []\<rparr>
          (socket0\<lparr>peer := oracle_peer duplicate_build_store (VBytes ''c1'') worker0\<rparr>)
          (Log_build build0)) =
     Raise (Exc IOError ''duplicate build'')"
proof -
  have h1: "map_of (handlers duplicate_build_store) ''LOGBUILD'' =
      Some (do_logbuild duplicate_build_store)"
    by (simp add: handlers_def)
  have h2: "call_handler (do_logbuild duplicate_build_store) (VList [build0]) (db worker0) =
     (Inl (Exc (OtherException ''IntegrityError'') ''duplicate build''), ())"
    by (simp add: call_handler_def do_logbuild_def duplicate_build_store_def const_store_def)
  have h3: "request_of (Log_build build0) = (''LOGBUILD'', VList [build0])" by simp
  from error_conversion [OF h1 h2 h3,
      of "socket0\<lparr>peer := oracle_peer duplicate_build_store (VBytes ''c1'') worker0\<rparr>"
         "VBytes ''c1''" ascii_lib "\<lparr>stats_type = None, logged_calls = []\<rparr>"] h1 h2
  show ?thesis by (simp add: socket0_def)
qed

text \<open>
  Claim C2, as stated, fails where it promises a non-empty payload: the payload is
  \<open>str(exc)\<close>, and an exception raised without a description has the empty one.
\<close>

theorem empty_description_counterexample:
  "handle_db_request silent_failure_store worker0
      (Inr (request_envelope (VBytes ''c1'') ''LOGBUILD'' (VList [build0]))) =
     (Return (),
      worker0\<lparr>trace :=
          [LoggedError ''Error handling db request: %s'' (VStr ''LOGBUILD''),
           SentAddrMsg (VBytes ''c1'') ''ERROR'' (VStr [])]\<rparr>)"
  by (simp add: handle_db_request_def request_envelope_def unpack3_def lookup_handler_def
      handlers_def call_handler_def do_logbuild_def silent_failure_store_def const_store_def
      worker0_def)

subsection \<open>Backpressure\<close>

text \<open>
  Claim C5. Every call of the client sends its request with \<open>NOBLOCK\<close>. When the transport
  cannot accept the send at once, the call raises the error of that send (\<open>Again\<close>, EAGAIN)
  after this single attempt: the socket records one send and no receive, nothing is
  enqueued, and nothing else changes. When the send is accepted, the request is enqueued
  and the client goes on to wait for the reply with one receive.
\<close>

theorem nonblocking_send:
  "(\<not> writable sock \<longrightarrow>
      perform lib w sock c =
        (Raise (Exc Again ''Resource temporarily unavailable''), w,
         sock\<lparr>calls := calls sock @
           [SendMsgCall (fst (request_of c)) (snd (request_of c)) NOBLOCK]\<rparr>)) \<and>
   (writable sock \<longrightarrow>
      calls (snd (snd (perform lib w sock c))) =
        calls sock @
          [SendMsgCall (fst (request_of c)) (snd (request_of c)) NOBLOCK, RecvMsgCall] \<and>
      outbound (snd (snd (perform lib w sock c))) = outbound sock @ [request_of c])"
proof (intro conjI impI)
  assume full: "\<not> writable sock"
  then have "fst (execute sock (fst (request_of c)) (snd (request_of c))) =
      Raise (Exc Again ''Resource temporarily unavailable'')"
    by (simp add: execute_outcome)
  from perform_raises [OF this, of lib w] full
  show "perform lib w sock c =
        (Raise (Exc Again ''Resource temporarily unavailable''), w,
         sock\<lparr>calls := calls sock @
           [SendMsgCall (fst (request_of c)) (snd (request_of c)) NOBLOCK]\<rparr>)"
    by (simp add: prod_eq_iff perform_socket execute_socket)
next
  assume "writable sock"
  then show "calls (snd (snd (perform lib w sock c))) =
        calls sock @
          [SendMsgCall (fst (request_of c)) (snd (request_of c)) NOBLOCK, RecvMsgCall]"
    by (simp add: perform_socket execute_socket split: list.splits)
next
  assume "writable sock"
  then show "outbound (snd (snd (perform lib w sock c))) = outbound sock @ [request_of c]"
    by (simp add: perform_socket execute_socket split: list.splits)
qed

theorem nonblocking_send_witness:
  "\<not> writable (socket0\<lparr>writable := False\<rparr>) \<and>
   perform ascii_lib world0 (socket0\<lparr>writable := False\<rparr>) (Get_package_files (VStr ''foo'')) =
     (Raise (Exc Again ''Resource temporarily unavailable''), world0,
      socket0\<lparr>writable := False,
        calls := [SendMsgCall ''PKGFILES'' (VList [VStr ''foo'']) NOBLOCK]\<rparr>) \<and>
   writable socket0 \<and>
   calls (snd (snd (perform ascii_lib world0 socket0 (Get_package_files (VStr ''foo''))))) =
     [SendMsgCall ''PKGFILES'' (VList [VStr ''foo'']) NOBLOCK, RecvMsgCall] \<and>
   outbound (snd (snd (perform ascii_lib world0 socket0 (Get_package_files (VStr ''foo''))))) =
     [(''PKGFILES'', VList [VStr ''foo''])]"
  using nonblocking_send [of "socket0\<lparr>writable := False\<rparr>" ascii_lib world0
      "Get_package_files (VStr ''foo'')"]
    nonblocking_send [of socket0 ascii_lib world0 "Get_package_files (VStr ''foo'')"]
  by (simp add: socket0_def)

subsection \<open>The \<open>skip\<close> argument of \<open>add_new_package\<close>\<close>

lemma handle_newpkg:
  "handle_db_request D self
      (Inr (request_envelope address ''NEWPKG'' (VList [package, skip]))) =
     (case db_add_new_package D package (db self) of
        (Inl exc, s) \<Rightarrow>
          (Return (),
           self\<lparr>db := s,
             trace := trace self @
               [LoggedError ''Error handling db request: %s'' (VStr ''NEWPKG''),
                SentAddrMsg address ''ERROR'' (VStr (str_exc exc))]\<rparr>)
      | (Inr result, s) \<Rightarrow>
          (Return (),
           self\<lparr>db := s, trace := trace self @ [SentAddrMsg address ''OK'' result]\<rparr>))"
  by (simp add: handle_received [OF unpack3_envelope] lookup_handler_def handlers_def
      call_handler_def do_newpkg_def)

text \<open>
  Claim C9. For the request \<open>NEWPKG\<close> with the arguments \<open>package\<close> and \<open>skip\<close>, the worker
  calls the store's \<open>add_new_package\<close> with \<open>package\<close> alone and replies with its outcome.
  The client puts \<open>skip\<close> on the wire, but the reply, and so what \<open>add_new_package\<close>
  returns or raises to its caller, is the same for every value of \<open>skip\<close>.
\<close>

theorem newpkg_discards_skip:
  "handle_db_request D self
      (Inr (request_envelope address ''NEWPKG'' (VList [package, skip]))) =
     (case db_add_new_package D package (db self) of
        (Inl exc, s) \<Rightarrow>
          (Return (),
           self\<lparr>db := s,
             trace := trace self @
               [LoggedError ''Error handling db request: %s'' (VStr ''NEWPKG''),
                SentAddrMsg address ''ERROR'' (VStr (str_exc exc))]\<rparr>)
      | (Inr result, s) \<Rightarrow>
          (Return (),
           self\<lparr>db := s, trace := trace self @ [SentAddrMsg address ''OK'' result]\<rparr>)) \<and>
   (writable sock \<longrightarrow>
      outbound (snd (add_new_package sock package skip)) =
        outbound sock @ [(''NEWPKG'', VList [package, skip])]) \<and>
   fst (add_new_package (sock\<lparr>peer := oracle_peer D address self\<rparr>) package skip) =
     fst (add_new_package (sock\<lparr>peer := oracle_peer D address self\<rparr>) package skip')"
proof (intro conjI impI)
  show "handle_db_request D self
      (Inr (request_envelope address ''NEWPKG'' (VList [package, skip]))) =
     (case db_add_new_package D package (db self) of
        (Inl exc, s) \<Rightarrow>
          (Return (),
           self\<lparr>db := s,
             trace := trace self @
               [LoggedError ''Error handling db request: %s'' (VStr ''NEWPKG''),
                SentAddrMsg address ''ERROR'' (VStr (str_exc exc))]\<rparr>)
      | (Inr result, s) \<Rightarrow>
          (Return (),
           self\<lparr>db := s, trace := trace self @ [SentAddrMsg address ''OK'' result]\<rparr>))"
    by (rule handle_newpkg)
next
  assume "writable sock"
  then show "outbound (snd (add_new_package sock package skip)) =
        outbound sock @ [(''NEWPKG'', VList [package, skip])]"
    by (simp add: add_new_package_def execute_socket split: list.splits)
next
  have "oracle_peer D address self ''NEWPKG'' (VList [package, skip]) =
        oracle_peer D address self ''NEWPKG'' (VList [package, skip'])"
    by (simp add: oracle_peer_def handle_newpkg)
  then show "fst (add_new_package (sock\<lparr>peer := oracle_peer D address self\<rparr>) package skip) =
     fst (add_new_package (sock\<lparr>peer := oracle_peer D address self\<rparr>) package skip')"
    by (simp add: add_new_package_def execute_outcome)
qed

theorem newpkg_discards_skip_witness:
  "handle_db_request (const_store (Inr (VBool True))) worker0
      (Inr (request_envelope (VBytes ''c1'') ''NEWPKG'' (VList [VStr ''foo'', VStr ''no sources'']))) =
     (Return (), worker0\<lparr>trace := [SentAddrMsg (VBytes ''c1'') ''OK'' (VBool True)]\<rparr>) \<and>
   writable socket0 \<and>
   outbound (snd (add_new_package socket0 (VStr ''foo'') (VStr ''no sources''))) =
     [(''NEWPKG'', VList [VStr ''foo'', VStr ''no sources''])] \<and>
   fst (add_new_package
          (socket0\<lparr>peer := oracle_peer (const_store (Inr (VBool True))) (VBytes ''c1'') worker0\<rparr>)
          (VStr ''foo'') (VStr ''no sources'')) = Return (VBool True) \<and>
   fst (add_new_package
          (socket0\<lparr>peer := oracle_peer (const_store (Inr (VBool True))) (VBytes ''c1'') worker0\<rparr>)
          (VStr ''foo'') VNone) = Return (VBool True)"
  using newpkg_discards_skip [of "const_store (Inr (VBool True))" worker0 "VBytes ''c1''"
      "VStr ''foo''" "VStr ''no sources''" socket0 VNone]
  by (simp add: socket0_def worker0_def const_store_def add_new_package_def execute_outcome
      oracle_peer_def handle_newpkg)

subsection \<open>Logging a build\<close>

lemma handle_logbuild:
  assumes "db_log_build D build (db self) = (Inr build', s)"
    and "py_getattr build' ''build_id'' = Inr build_id"
  shows "handle_db_request D self
      (Inr (request_envelope address ''LOGBUILD'' (VList [build]))) =
     (Return (),
      self\<lparr>db := s, trace := trace self @ [] @ [SentAddrMsg address ''OK'' build_id]\<rparr>)"
  using assms
  by (simp add: handle_received [OF unpack3_envelope] lookup_handler_def handlers_def
      call_handler_def do_logbuild_def then_apply_def)

lemma log_build_reply:
  assumes "writable sock"
    and "inbound sock @ peer sock ''LOGBUILD'' (VList [build]) = (status, payload) # rest"
  shows "fst (log_build w sock build) =
           (if status = ''OK''
            then (case build of
                    VObj c attrs \<Rightarrow> Return VNone
                  | _ \<Rightarrow> Raise (Exc AttributeError ''object has no attribute logged''))
            else Raise (Exc IOError (py_str payload)))"
    and "fst (snd (log_build w sock build)) =
           (if status = ''OK''
            then (case build of
                    VObj c attrs \<Rightarrow> w\<lparr>logged_calls := logged_calls w @ [(build, payload)]\<rparr>
                  | _ \<Rightarrow> w)
            else w)"
proof -
  obtain r sock' where ex: "execute sock ''LOGBUILD'' (VList [build]) = (r, sock')"
    by (cases "execute sock ''LOGBUILD'' (VList [build])") auto
  from execute_outcome [of sock "''LOGBUILD''" "VList [build]"] ex assms
  have r: "r = (if status = ''OK'' then Return payload else Raise (Exc IOError (py_str payload)))"
    by simp
  from ex r show "fst (log_build w sock build) =
           (if status = ''OK''
            then (case build of
                    VObj c attrs \<Rightarrow> Return VNone
                  | _ \<Rightarrow> Raise (Exc AttributeError ''object has no attribute logged''))
            else Raise (Exc IOError (py_str payload)))"
    by (cases build) (simp_all add: log_build_def)
  from ex r show "fst (snd (log_build w sock build)) =
           (if status = ''OK''
            then (case build of
                    VObj c attrs \<Rightarrow> w\<lparr>logged_calls := logged_calls w @ [(build, payload)]\<rparr>
                  | _ \<Rightarrow> w)
            else w)"
    by (cases build) (simp_all add: log_build_def)
qed

text \<open>
  Claim C10. When the store's \<open>log_build\<close> succeeds and the build then has the identifier
  \<open>build_id\<close>, the worker replies \<open>OK\<close> with that identifier; the client whose request this
  was calls \<open>logged\<close> on the build object it was passed, once and with exactly that
  identifier, and itself returns \<open>None\<close>. On a reply of status \<open>ERROR\<close> the client raises
  and no call of \<open>logged\<close> is made.
\<close>

theorem log_build_identifier:
  "(db_log_build D (VObj c attrs) (db self) = (Inr build', s) \<and>
    py_getattr build' ''build_id'' = Inr build_id \<and>
    writable sock \<and> inbound sock = [] \<and> peer sock = oracle_peer D address self \<longrightarrow>
      handle_db_request D self
          (Inr (request_envelope address ''LOGBUILD'' (VList [VObj c attrs]))) =
        (Return (),
         self\<lparr>db := s, trace := trace self @ [SentAddrMsg address ''OK'' build_id]\<rparr>) \<and>
      fst (log_build w sock (VObj c attrs)) = Return VNone \<and>
      fst (snd (log_build w sock (VObj c attrs))) =
        w\<lparr>logged_calls := logged_calls w @ [(VObj c attrs, build_id)]\<rparr>) \<and>
   (writable sock2 \<and>
    inbound sock2 @ peer sock2 ''LOGBUILD'' (VList [build]) = (''ERROR'', payload) # rest \<longrightarrow>
      fst (log_build w sock2 build) = Raise (Exc IOError (py_str payload)) \<and>
      fst (snd (log_build w sock2 build)) = w)"
proof (intro conjI impI)
  assume a: "db_log_build D (VObj c attrs) (db self) = (Inr build', s) \<and>
    py_getattr build' ''build_id'' = Inr build_id \<and>
    writable sock \<and> inbound sock = [] \<and> peer sock = oracle_peer D address self"
  then have a1: "db_log_build D (VObj c attrs) (db self) = (Inr build', s)"
    and a2: "py_getattr build' ''build_id'' = Inr build_id"
    by simp_all
  note step = handle_logbuild [OF a1 a2, of address]
  then show "handle_db_request D self
          (Inr (request_envelope address ''LOGBUILD'' (VList [VObj c attrs]))) =
        (Return (),
         self\<lparr>db := s, trace := trace self @ [SentAddrMsg address ''OK'' build_id]\<rparr>)"
    by simp
  from oracle_peer_reply [OF step] a
  have reply: "inbound sock @ peer sock ''LOGBUILD'' (VList [VObj c attrs]) =
      (''OK'', build_id) # []"
    by simp
  from a have w: "writable sock" by simp
  from log_build_reply(1) [OF w reply, of w]
  show "fst (log_build w sock (VObj c attrs)) = Return VNone" by simp
  from log_build_reply(2) [OF w reply, of w]
  show "fst (snd (log_build w sock (VObj c attrs))) =
        w\<lparr>logged_calls := logged_calls w @ [(VObj c attrs, build_id)]\<rparr>" by simp
next
  assume b: "writable sock2 \<and>
    inbound sock2 @ peer sock2 ''LOGBUILD'' (VList [build]) = (''ERROR'', payload) # rest"
  then have w: "writable sock2"
    and reply: "inbound sock2 @ peer sock2 ''LOGBUILD'' (VList [build]) = (''ERROR'', payload) # rest"
    by simp_all
  from log_build_reply(1) [OF w reply, of w]
  show "fst (log_build w sock2 build) = Raise (Exc IOError (py_str payload))" by simp
  from log_build_reply(2) [OF w reply, of w]
  show "fst (snd (log_build w sock2 build)) = w" by simp
qed

theorem log_build_identifier_witness:
  "db_log_build logging_store build0 (db worker0) =
     (Inr (VObj ''BuildState'' [(''package'', VStr ''foo''), (''build_id'', VInt 42)]), ()) \<and>
   py_getattr (VObj ''BuildState'' [(''package'', VStr ''foo''), (''build_id'', VInt 42)])
     ''build_id'' = Inr (VInt 42) \<and>
   handle_db_request logging_store worker0
       (Inr (request_envelope (VBytes ''c1'') ''LOGBUILD'' (VList [build0]))) =
     (Return (), worker0\<lparr>trace := [SentAddrMsg (VBytes ''c1'') ''OK'' (VInt 42)]\<rparr>) \<and>
   log_build world0 (socket0\<lparr>peer := oracle_peer logging_store (VBytes ''c1'') worker0\<rparr>) build0 =
     (Return VNone, world0\<lparr>logged_calls := [(build0, VInt 42)]\<rparr>,
      socket0\<lparr>peer := oracle_peer logging_store (VBytes ''c1'') worker0,
        outbound := [(''LOGBUILD'', VList [build0])],
        calls := [SendMsgCall ''LOGBUILD'' (VList [build0]) NOBLOCK, RecvMsgCall]\<rparr>) \<and>
   inbound (socket0\<lparr>peer := oracle_peer duplicate_build_store (VBytes ''c1'') worker0\<rparr>) @
     oracle_peer duplicate_build_store (VBytes ''c1'') worker0 ''LOGBUILD'' (VList [build0]) =
     [(''ERROR'', VStr ''duplicate build'')] \<and>
   fst (log_build world0
          (socket0\<lparr>peer := oracle_peer duplicate_build_store (VBytes ''c1'') worker0\<rparr>) build0) =
     Raise (Exc IOError ''duplicate build'') \<and>
   fst (snd (log_build world0
          (socket0\<lparr>peer := oracle_peer duplicate_build_store (VBytes ''c1'') worker0\<rparr>) build0)) =
     world0"
proof -
  have step: "handle_db_request logging_store worker0
       (Inr (request_envelope (VBytes ''c1'') ''LOGBUILD'' (VList [build0]))) =
     (Return (), worker0\<lparr>trace := [SentAddrMsg (VBytes ''c1'') ''OK'' (VInt 42)]\<rparr>)"
    by (simp add: handle_db_request_def request_envelope_def unpack3_def lookup_handler_def
      handlers_def call_handler_def do_logbuild_def then_apply_def logging_store_def
      const_store_def worker0_def)
  have step2: "handle_db_request duplicate_build_store worker0
       (Inr (request_envelope (VBytes ''c1'') ''LOGBUILD'' (VList [build0]))) =
     (Return (), worker0\<lparr>trace := [LoggedError ''Error handling db request: %s'' (VStr ''LOGBUILD''),
         SentAddrMsg (VBytes ''c1'') ''ERROR'' (VStr ''duplicate build'')]\<rparr>)"
    by (simp add: handle_db_request_def request_envelope_def unpack3_def lookup_handler_def
      handlers_def call_handler_def do_logbuild_def then_apply_def duplicate_build_store_def
      const_store_def worker0_def)
  have p1: "oracle_peer logging_store (VBytes ''c1'') worker0 ''LOGBUILD'' (VList [build0]) =
      [(''OK'', VInt 42)]"
    by (simp add: oracle_peer_def step) (simp add: worker0_def)
  have p2: "oracle_peer duplicate_build_store (VBytes ''c1'') worker0 ''LOGBUILD'' (VList [build0]) =
      [(''ERROR'', VStr ''duplicate build'')]"
    by (simp add: oracle_peer_def step2) (simp add: worker0_def)
  have full: "log_build world0 (socket0\<lparr>peer := oracle_peer logging_store (VBytes ''c1'') worker0\<rparr>) build0 =
     (Return VNone, world0\<lparr>logged_calls := [(build0, VInt 42)]\<rparr>,
      socket0\<lparr>peer := oracle_peer logging_store (VBytes ''c1'') worker0,
        outbound := [(''LOGBUILD'', VList [build0])],
        calls := [SendMsgCall ''LOGBUILD'' (VList [build0]) NOBLOCK, RecvMsgCall]\<rparr>)"
    by (simp add: log_build_def execute_def send_msg_def recv_msg_def p1 [unfolded build0_def] socket0_def build0_def
        world0_def)
  from log_build_identifier [where D = logging_store and c = "''BuildState''"
      and attrs = "[(''package'', VStr ''foo''), (''build_id'', VNone)]" and self = worker0
      and build' = "VObj ''BuildState'' [(''package'', VStr ''foo''), (''build_id'', VInt 42)]"
      and s = "()" and build_id = "VInt 42"
      and sock = "socket0\<lparr>peer := oracle_peer logging_store (VBytes ''c1'') worker0\<rparr>"
      and address = "VBytes ''c1''"
      and ?sock2.0 = "socket0\<lparr>peer := oracle_peer duplicate_build_store (VBytes ''c1'') worker0\<rparr>"
      and build = build0 and payload = "VStr ''duplicate build''" and rest = "[]" and w = world0]
    step full p2
  show ?thesis
    by (simp add: logging_store_def const_store_def build0_def socket0_def worker0_def)
qed

subsection \<open>Starting a worker\<close>

lemma init_connected:
  assumes "Database (dsn cfg) = Inr d"
  shows "init Database ORACLE_QUEUE instance cfg =
           (instance + 1,
            Return \<lparr>name = TheOracle_name @ ''_'' @ dec (instance + 1), db = d,
              trace = [DbOpened (dsn cfg), SocketCreated, HwmSet 10, Connected ORACLE_QUEUE,
                       Registered, Sent (VBytes ''READY'')]\<rparr>)"
  unfolding init_def Let_def using assms by simp

lemma init_failed:
  assumes "Database (dsn cfg) = Inl e"
  shows "init Database ORACLE_QUEUE instance cfg = (instance + 1, Raise e)"
  unfolding init_def Let_def using assms by simp

text \<open>
  Claim C7. When the store connection opens, \<open>__init__\<close> returns a worker that has, in this
  order, opened its store connection, created its socket, connected it to the queue address
  and registered its handler, and then sent one message: the bare frame \<open>READY\<close>, which
  carries no operation name and no payload. It is the only message sent and the last event
  of the construction; no reply has been sent, since no request has been handled yet.
\<close>

theorem ready_advertisement:
  assumes "Database (dsn cfg) = Inr d"
  shows "\<exists>self. init Database ORACLE_QUEUE instance cfg = (instance + 1, Return self) \<and>
           db self = d \<and>
           trace self =
             [DbOpened (dsn cfg), SocketCreated, HwmSet 10, Connected ORACLE_QUEUE, Registered,
              Sent (VBytes ''READY'')] \<and>
           filter is_message (trace self) = [Sent (VBytes ''READY'')] \<and>
           operation_of (last (trace self)) = None \<and>
           payload_of (last (trace self)) = None \<and>
           replies (trace self) = []"
proof -
  let ?self = "\<lparr>name = TheOracle_name @ ''_'' @ dec (instance + 1), db = d,
              trace = [DbOpened (dsn cfg), SocketCreated, HwmSet 10, Connected ORACLE_QUEUE,
                       Registered, Sent (VBytes ''READY'')]\<rparr>"
  have "init Database ORACLE_QUEUE instance cfg = (instance + 1, Return ?self)"
    using assms by (rule init_connected [where Database = Database and cfg = cfg and d = d])
  moreover have "db ?self = d" by simp
  moreover have "trace ?self =
             [DbOpened (dsn cfg), SocketCreated, HwmSet 10, Connected ORACLE_QUEUE, Registered,
              Sent (VBytes ''READY'')]" by simp
  moreover have "filter is_message (trace ?self) = [Sent (VBytes ''READY'')]" by simp
  moreover have "operation_of (last (trace ?self)) = None" by simp
  moreover have "payload_of (last (trace ?self)) = None" by simp
  moreover have "replies (trace ?self) = []" by simp
  ultimately show ?thesis by blast
qed

theorem ready_advertisement_witness:
  "open_store (dsn config0) = Inr () \<and>
   (\<exists>self. init open_store ''inproc://oracle'' 0 config0 = (0 + 1, Return self) \<and>
           db self = () \<and>
           trace self =
             [DbOpened (dsn config0), SocketCreated, HwmSet 10,
              Connected ''inproc://oracle'', Registered, Sent (VBytes ''READY'')] \<and>
           filter is_message (trace self) = [Sent (VBytes ''READY'')] \<and>
           operation_of (last (trace self)) = None \<and>
           payload_of (last (trace self)) = None \<and>
           replies (trace self) = [])"
proof -
  have h: "open_store (dsn config0) = Inr ()" by (simp add: open_store_def)
  from ready_advertisement [of open_store config0 "()" "''inproc://oracle''" 0, OF h] h
  show ?thesis by blast
qed

subsection \<open>Worker identities\<close>

lemma digit_inj:
  assumes "a < 10" and "b < 10" and "digit a = digit b"
  shows "a = b"
proof -
  have d: "distinct ''0123456789''" by simp
  have l: "length ''0123456789'' = 10" by simp
  from assms show ?thesis
    unfolding digit_def using nth_eq_iff_index_eq [OF d, of a b] l by simp
qed

lemma dec_nonempty: "dec n \<noteq> []"
  by (subst dec.simps) simp

lemma dec_inj: "dec m = dec n \<Longrightarrow> m = n"
proof (induction m arbitrary: n rule: dec.induct)
  case (1 m)
  show ?case
  proof (cases "m < 10")
    case small: True
    show ?thesis
    proof (cases "n < 10")
      case True
      with small "1.prems" have "digit m = digit n"
        by (subst (asm) dec.simps, subst (asm) (2) dec.simps) simp
      with small True show ?thesis by (rule digit_inj)
    next
      case False
      with small "1.prems" have "[digit m] = dec (n div 10) @ [digit (n mod 10)]"
        by (subst (asm) dec.simps, subst (asm) (2) dec.simps) simp
      then have "dec (n div 10) = []" by simp
      with dec_nonempty show ?thesis by blast
    qed
  next
    case big: False
    show ?thesis
    proof (cases "n < 10")
      case True
      with big "1.prems" have "dec (m div 10) @ [digit (m mod 10)] = [digit n]"
        by (subst (asm) dec.simps, subst (asm) (2) dec.simps) simp
      then have "dec (m div 10) = []" by simp
      with dec_nonempty show ?thesis by blast
    next
      case False
      with big "1.prems"
      have "dec (m div 10) @ [digit (m mod 10)] = dec (n div 10) @ [digit (n mod 10)]"
        by (subst (asm) dec.simps, subst (asm) (2) dec.simps) simp
      then have q: "dec (m div 10) = dec (n div 10)"
        and r: "digit (m mod 10) = digit (n mod 10)" by simp_all
      from "1.IH" [OF big q] have "m div 10 = n div 10" .
      moreover from r have "m mod 10 = n mod 10" by (intro digit_inj) simp_all
      ultimately show ?thesis by (metis div_mult_mod_eq)
    qed
  qed
qed


lemma init_counter: "fst (init Database ORACLE_QUEUE n cfg) = n + 1"
  by (simp add: init_def Let_def split: sum.splits)

lemma init_name:
  "snd (init Database ORACLE_QUEUE n cfg) = Return self \<Longrightarrow>
     name self = TheOracle_name @ ''_'' @ dec (n + 1)"
  by (auto simp: init_def Let_def split: sum.splits)

lemma construct_all_step:
  "construct_all Database ORACLE_QUEUE n (cfg # cfgs) =
     (fst (construct_all Database ORACLE_QUEUE (n + 1) cfgs),
      snd (init Database ORACLE_QUEUE n cfg) #
      snd (construct_all Database ORACLE_QUEUE (n + 1) cfgs))"
proof -
  obtain n' r where i: "init Database ORACLE_QUEUE n cfg = (n', r)"
    by (cases "init Database ORACLE_QUEUE n cfg") auto
  with init_counter [of Database ORACLE_QUEUE n cfg] have n': "n' = n + 1" by simp
  obtain n'' rs where c: "construct_all Database ORACLE_QUEUE (n + 1) cfgs = (n'', rs)"
    by (cases "construct_all Database ORACLE_QUEUE (n + 1) cfgs") auto
  from i n' c show ?thesis by simp
qed

lemma construct_all_Cons:
  "snd (construct_all Database ORACLE_QUEUE n (cfg # cfgs)) =
     snd (init Database ORACLE_QUEUE n cfg) #
     snd (construct_all Database ORACLE_QUEUE (n + 1) cfgs)"
  by (simp only: construct_all_step snd_conv)

lemma construct_all_counter:
  "fst (construct_all Database ORACLE_QUEUE n cfgs) = n + length cfgs"
proof (induction cfgs arbitrary: n)
  case Nil
  show ?case by simp
next
  case (Cons cfg cfgs)
  from Cons.IH [of "n + 1"] show ?case by (simp only: construct_all_step fst_conv) simp
qed

lemma construct_all_name:
  "i < length cfgs \<Longrightarrow> snd (construct_all Database ORACLE_QUEUE n cfgs) ! i = Return self \<Longrightarrow>
     name self = TheOracle_name @ ''_'' @ dec (n + i + 1)"
proof (induction cfgs arbitrary: n i)
  case Nil
  then show ?case by simp
next
  case (Cons cfg cfgs)
  show ?case
  proof (cases i)
    case 0
    with Cons.prems show ?thesis by (simp add: construct_all_Cons init_name del: construct_all.simps)
  next
    case (Suc j)
    with Cons.prems have "j < length cfgs"
      and "snd (construct_all Database ORACLE_QUEUE (n + 1) cfgs) ! j = Return self"
      by (simp_all add: construct_all_Cons del: construct_all.simps)
    from Cons.IH [OF this] Suc show ?thesis by simp
  qed
qed

lemma constructed_from:
  "self \<in> set (constructed (snd (construct_all Database ORACLE_QUEUE n cfgs))) \<Longrightarrow>
     \<exists>k > n. name self = TheOracle_name @ ''_'' @ dec k"
proof (induction cfgs arbitrary: n)
  case Nil
  then show ?case by simp
next
  case (Cons cfg cfgs)
  show ?case
  proof (cases "snd (init Database ORACLE_QUEUE n cfg)")
    case (Return first)
    with Cons.prems consider "self = first"
      | "self \<in> set (constructed (snd (construct_all Database ORACLE_QUEUE (n + 1) cfgs)))"
      by (auto simp: construct_all_Cons simp del: construct_all.simps)
    then show ?thesis
    proof cases
      case 1
      with Return init_name [of Database ORACLE_QUEUE n cfg first]
      have "name self = TheOracle_name @ ''_'' @ dec (n + 1)" by simp
      then show ?thesis by (intro exI [of _ "n + 1"]) simp
    next
      case 2
      from Cons.IH [OF this] show ?thesis by (metis add_lessD1)
    qed
  next
    case (Raise e)
    with Cons.prems
    have "self \<in> set (constructed (snd (construct_all Database ORACLE_QUEUE (n + 1) cfgs)))"
      by (simp add: construct_all_Cons del: construct_all.simps)
    from Cons.IH [OF this] show ?thesis by (metis add_lessD1)
  next
    case Hang
    with Cons.prems
    have "self \<in> set (constructed (snd (construct_all Database ORACLE_QUEUE (n + 1) cfgs)))"
      by (simp add: construct_all_Cons del: construct_all.simps)
    from Cons.IH [OF this] show ?thesis by (metis add_lessD1)
  qed
qed

lemma constructed_names_distinct:
  "distinct (map name (constructed (snd (construct_all Database ORACLE_QUEUE n cfgs))))"
proof (induction cfgs arbitrary: n)
  case Nil
  show ?case by simp
next
  case (Cons cfg cfgs)
  note rest = Cons.IH [of "n + 1"]
  show ?case
  proof (cases "snd (init Database ORACLE_QUEUE n cfg)")
    case (Return first)
    have first: "name first = TheOracle_name @ ''_'' @ dec (n + 1)"
      using Return by (rule init_name)
    have "name first \<notin> name ` set (constructed (snd (construct_all Database ORACLE_QUEUE (n + 1) cfgs)))"
    proof
      assume "name first \<in> name ` set (constructed (snd (construct_all Database ORACLE_QUEUE (n + 1) cfgs)))"
      then obtain other where
        o: "other \<in> set (constructed (snd (construct_all Database ORACLE_QUEUE (n + 1) cfgs)))"
        and same: "name other = name first" by auto
      from constructed_from [OF o] obtain k where
        k: "n + 1 < k" and "name other = TheOracle_name @ ''_'' @ dec k" by blast
      with same first have "dec k = dec (n + 1)" by simp
      then have "k = n + 1" by (rule dec_inj)
      with k show False by simp
    qed
    with rest Return show ?thesis by (simp add: construct_all_Cons del: construct_all.simps)
  next
    case (Raise e)
    with rest show ?thesis by (simp add: construct_all_Cons del: construct_all.simps)
  next
    case Hang
    with rest show ?thesis by (simp add: construct_all_Cons del: construct_all.simps)
  qed
qed

text \<open>
  Claim C8. Workers constructed one after another in a process, starting with the class
  counter at \<open>n\<close>: every construction raises the counter by one, whether it succeeds or
  not; the worker of the \<open>i\<close>-th construction (counting from 0) is named by the base name,
  an underscore and the decimal number \<open>n + i + 1\<close>; and no two constructed workers have
  the same name.
\<close>

theorem worker_names_unique:
  "fst (construct_all Database ORACLE_QUEUE n cfgs) = n + length cfgs \<and>
   (\<forall>i self. i < length cfgs \<and>
       snd (construct_all Database ORACLE_QUEUE n cfgs) ! i = Return self \<longrightarrow>
       name self = TheOracle_name @ ''_'' @ dec (n + i + 1)) \<and>
   distinct (map name (constructed (snd (construct_all Database ORACLE_QUEUE n cfgs))))"
  using construct_all_counter [of Database ORACLE_QUEUE n cfgs]
    construct_all_name [of _ cfgs Database ORACLE_QUEUE n]
    constructed_names_distinct [of Database ORACLE_QUEUE n cfgs]
  by blast

theorem worker_names_unique_witness:
  "fst (construct_all open_store ''inproc://oracle'' 0 [config0, config0]) = 2 \<and>
   (1::nat) < length [config0, config0] \<and>
   (\<exists>first second.
      snd (construct_all open_store ''inproc://oracle'' 0 [config0, config0]) =
        [Return first, Return second] \<and>
      name first = ''master.the_oracle_1'' \<and> name second = ''master.the_oracle_2'') \<and>
   distinct (map name
     (constructed (snd (construct_all open_store ''inproc://oracle'' 0 [config0, config0]))))"
proof -
  have d: "dec (Suc 0) = ''1''" "dec (Suc (Suc 0)) = ''2''"
    by (subst dec.simps, simp add: digit_def)+
  from worker_names_unique [of open_store "''inproc://oracle''" 0 "[config0, config0]"]
  show ?thesis
    by (simp add: init_def open_store_def TheOracle_name_def d)
qed

subsection \<open>The statistics record\<close>

lemma get_statistics_cases:
  assumes "get_statistics lib w sock = (Return r, w', sock')"
  obtains rec kvs t where
    "fst (execute sock ''GETSTATS'' VNone) = Return rec"
    "pairs_of rec = Inr kvs"
    "(case stats_type w of Some t' \<Rightarrow> Inr t' | None \<Rightarrow> namedtuple lib (map fst kvs)) = Inr t"
    "w' = w\<lparr>stats_type := Some t\<rparr>"
    "stats_new t kvs = Inr r"
proof -
  obtain x sock1 where ex: "execute sock ''GETSTATS'' VNone = (x, sock1)"
    by (cases "execute sock ''GETSTATS'' VNone") auto
  with assms obtain rec where x: "x = Return rec"
    by (cases x) (simp_all add: get_statistics_def)
  from assms ex x obtain kvs where kvs: "pairs_of rec = Inr kvs"
    by (cases "pairs_of rec"; cases "stats_type w")
       (simp_all add: get_statistics_def Let_def split: sum.splits)
  from assms ex x kvs obtain t where
    t: "(case stats_type w of Some t' \<Rightarrow> Inr t' | None \<Rightarrow> namedtuple lib (map fst kvs)) = Inr t"
    by (cases "stats_type w"; cases "namedtuple lib (map fst kvs)")
       (simp_all add: get_statistics_def Let_def)
  from assms ex x kvs t have "w' = w\<lparr>stats_type := Some t\<rparr>" and "stats_new t kvs = Inr r"
    by (cases "stats_type w"; cases "stats_new t kvs"; simp add: get_statistics_def Let_def)+
  with ex x kvs t that show thesis by simp
qed

lemma get_statistics_keeps:
  assumes "stats_type w = Some t"
  shows "stats_type (fst (snd (get_statistics lib w sock))) = Some t"
proof -
  obtain x sock1 where ex: "execute sock ''GETSTATS'' VNone = (x, sock1)"
    by (cases "execute sock ''GETSTATS'' VNone") auto
  show ?thesis
  proof (cases x)
    case (Return rec)
    with ex assms show ?thesis
      by (cases "pairs_of rec") (simp_all add: get_statistics_def Let_def split: sum.splits)
  qed (use ex assms in \<open>simp_all add: get_statistics_def\<close>)
qed

lemma get_statistics_calls_Cons:
  "fst (get_statistics_calls lib w (sock # socks)) =
     fst (get_statistics_calls lib (fst (snd (get_statistics lib w sock))) socks)"
  by (cases "get_statistics lib w sock";
      cases "get_statistics_calls lib (fst (snd (get_statistics lib w sock))) socks") simp

lemma get_statistics_calls_keep:
  "stats_type w = Some t \<Longrightarrow> stats_type (fst (get_statistics_calls lib w socks)) = Some t"
proof (induction socks arbitrary: w)
  case Nil
  then show ?case by simp
next
  case (Cons sock socks)
  from get_statistics_keeps [OF Cons.prems, of lib sock]
  have "stats_type (fst (get_statistics_calls lib (fst (snd (get_statistics lib w sock))) socks)) = Some t"
    by (rule Cons.IH)
  then show ?case by (simp only: get_statistics_calls_Cons)
qed

lemma those_fields:
  "those (map (\<lambda>f. map_option (Pair f) (d f)) t) = Some attrs \<Longrightarrow>
     map fst attrs = t \<and> (\<forall>f \<in> set t. map_of attrs f = d f)"
proof (induction t arbitrary: attrs)
  case Nil
  then show ?case by simp
next
  case (Cons f t)
  from Cons.prems obtain v rest where v: "d f = Some v"
    and rest: "those (map (\<lambda>f. map_option (Pair f) (d f)) t) = Some rest"
    and attrs: "attrs = (f, v) # rest"
    by (auto split: option.splits)
  from Cons.IH [OF rest] v attrs show ?case by auto
qed

lemma stats_new_fields:
  assumes "stats_new t kvs = Inr r"
  obtains attrs where "r = VObj ''Statistics'' attrs" "map fst attrs = t"
    "\<forall>f \<in> set t. map_of attrs f = dict_of kvs f"
    "list_all is_str (map fst kvs)"
    "\<forall>(k, v) \<in> set kvs. py_str k \<in> set t"
proof -
  from assms have s: "list_all is_str (map fst kvs)"
    and k: "list_all (\<lambda>(k, v). py_str k \<in> set t) kvs"
    by (simp_all add: stats_new_def split: if_splits)
  from assms obtain attrs where
    a: "those (map (\<lambda>f. map_option (Pair f) (dict_of kvs f)) t) = Some attrs"
    and r: "r = VObj ''Statistics'' attrs"
    by (auto simp: stats_new_def split: if_splits option.splits)
  from those_fields [OF a] r s k that show thesis
    by (simp add: list_all_iff)
qed

lemma py_str_inj: "is_str a \<Longrightarrow> is_str b \<Longrightarrow> py_str a = py_str b \<Longrightarrow> a = b"
  by (cases a; cases b) simp_all

lemma dict_of_distinct:
  assumes "distinct (map fst kvs)" and "list_all is_str (map fst kvs)" and "(k, v) \<in> set kvs"
  shows "dict_of kvs (py_str k) = Some v"
proof -
  from assms(2) have "inj_on py_str (set (map fst kvs))"
    by (auto simp: inj_on_def list_all_iff intro: py_str_inj)
  with assms(1) have "distinct (map py_str (map fst kvs))"
    by (subst distinct_map) blast
  then have "distinct (map fst (rev (map (\<lambda>(k, v). (py_str k, v)) kvs)))"
    by (simp add: rev_map [symmetric] comp_def case_prod_unfold)
  moreover from assms(3) have "(py_str k, v) \<in> set (rev (map (\<lambda>(k, v). (py_str k, v)) kvs))"
    by force
  ultimately show ?thesis unfolding dict_of_def by (rule map_of_is_SomeI)
qed

lemma is_str_hashable: "is_str k \<Longrightarrow> hashable k"
  by (cases k) simp_all

lemma those_some:
  "\<forall>f \<in> set t. d f \<noteq> None \<Longrightarrow>
     \<exists>attrs. those (map (\<lambda>f. map_option (Pair f) (d f)) t) = Some attrs"
proof (induction t)
  case Nil
  show ?case by simp
next
  case (Cons f t)
  then obtain v where v: "d f = Some v" by auto
  from Cons obtain attrs where "those (map (\<lambda>f. map_option (Pair f) (d f)) t) = Some attrs"
    by auto
  with v show ?case by simp
qed

lemma those_pairs:
  "\<forall>(k, v) \<in> set xs. d (py_str k) = Some v \<Longrightarrow>
     those (map (\<lambda>p. map_option (Pair (py_str (fst p))) (d (py_str (fst p)))) xs) =
       Some (map (\<lambda>(k, v). (py_str k, v)) xs)"
proof (induction xs)
  case Nil
  show ?case by simp
next
  case (Cons x xs)
  obtain k v where x: "x = (k, v)" by (cases x)
  from Cons.prems x have "d (py_str k) = Some v" by simp
  moreover from Cons
  have "those (map (\<lambda>p. map_option (Pair (py_str (fst p))) (d (py_str (fst p)))) xs) =
       Some (map (\<lambda>(k, v). (py_str k, v)) xs)"
    by simp
  ultimately show ?case using x by simp
qed

lemma dict_of_dom: "(dict_of kvs f \<noteq> None) = (f \<in> py_str ` fst ` set kvs)"
proof -
  have "fst ` set (rev (map (\<lambda>(k, v). (py_str k, v)) kvs)) = py_str ` fst ` set kvs"
    by force
  then show ?thesis
    unfolding dict_of_def by (simp only: map_of_eq_None_iff) simp
qed

lemma stats_new_checks:
  assumes "list_all is_str (map fst kvs)" and "py_str ` fst ` set kvs \<subseteq> set t"
  shows "stats_new t kvs =
           (case those (map (\<lambda>f. map_option (Pair f) (dict_of kvs f)) t) of
              None \<Rightarrow> Inl (Exc TypeError ''missing required positional arguments'')
            | Some attrs \<Rightarrow> Inr (VObj ''Statistics'' attrs))"
proof -
  from assms(1) have "list_all hashable (map fst kvs)"
    by (auto simp: list_all_iff intro: is_str_hashable)
  moreover from assms(2) have "list_all (\<lambda>(k, v). py_str k \<in> set t) kvs"
    by (force simp: list_all_iff)
  ultimately show ?thesis using assms(1) by (simp add: stats_new_def)
qed

lemma get_statistics_on_reply:
  assumes "writable sock"
    and "inbound sock @ peer sock ''GETSTATS'' VNone = (''OK'', rec) # rest"
    and "pairs_of rec = Inr kvs"
    and "(case stats_type w of Some u \<Rightarrow> Inr u | None \<Rightarrow> namedtuple lib (map fst kvs)) = Inr t"
    and "stats_new t kvs = Inr r"
  shows "get_statistics lib w sock =
           (Return r, w\<lparr>stats_type := Some t\<rparr>, snd (execute sock ''GETSTATS'' VNone))"
proof -
  obtain x sock1 where ex: "execute sock ''GETSTATS'' VNone = (x, sock1)"
    by (cases "execute sock ''GETSTATS'' VNone") auto
  from execute_outcome [of sock "''GETSTATS''" VNone] ex assms(1,2)
  have x: "x = Return rec" by simp
  show ?thesis
  proof (cases "stats_type w")
    case None
    with assms(3,4,5) ex x show ?thesis by (simp add: get_statistics_def)
  next
    case (Some u)
    with assms(3,4,5) ex x show ?thesis by (simp add: get_statistics_def)
  qed
qed

lemma first_reply_pins:
  assumes "stats_type w = None" and "writable sock"
    and "inbound sock @ peer sock ''GETSTATS'' VNone = (''OK'', rec) # rest"
    and "pairs_of rec = Inr kvs"
    and strs: "list_all is_str (map fst kvs)"
    and valid: "list_all (valid_field lib) (map (py_str \<circ> fst) kvs)"
    and dist: "distinct (map (py_str \<circ> fst) kvs)"
  shows "get_statistics lib w sock =
           (Return (VObj ''Statistics'' (map (\<lambda>(k, v). (py_str k, v)) kvs)),
            w\<lparr>stats_type := Some (map (py_str \<circ> fst) kvs)\<rparr>,
            snd (execute sock ''GETSTATS'' VNone))"
proof -
  let ?t = "map (py_str \<circ> fst) kvs"
  have names: "map py_str (map fst kvs) = ?t" by simp
  from strs valid dist have nt: "namedtuple lib (map fst kvs) = Inr ?t"
    by (simp add: namedtuple_def Let_def comp_def)
  from dist have "distinct (map py_str (map fst kvs))" by (simp add: comp_def)
  then have dk: "distinct (map fst kvs)"
    using distinct_map [of py_str "map fst kvs"] by blast
  have "\<forall>(k, v) \<in> set kvs. dict_of kvs (py_str k) = Some v"
    using dict_of_distinct [OF dk strs] by auto
  then have "those (map (\<lambda>p. map_option (Pair (py_str (fst p))) (dict_of kvs (py_str (fst p)))) kvs) =
      Some (map (\<lambda>(k, v). (py_str k, v)) kvs)"
    by (rule those_pairs)
  then have th: "those (map (\<lambda>f. map_option (Pair f) (dict_of kvs f)) ?t) =
      Some (map (\<lambda>(k, v). (py_str k, v)) kvs)"
    by (simp add: comp_def)
  have "py_str ` fst ` set kvs \<subseteq> set ?t" by force
  from stats_new_checks [OF strs this] th
  have sn: "stats_new ?t kvs = Inr (VObj ''Statistics'' (map (\<lambda>(k, v). (py_str k, v)) kvs))"
    by simp
  from assms(1) nt
  have c: "(case stats_type w of Some u \<Rightarrow> Inr u | None \<Rightarrow> namedtuple lib (map fst kvs)) = Inr ?t"
    by simp
  from get_statistics_on_reply [OF assms(2,3,4) c sn] show ?thesis .
qed

lemma later_reply_reuses:
  assumes "stats_type w = Some u" and "writable sock"
    and "inbound sock @ peer sock ''GETSTATS'' VNone = (''OK'', rec) # rest"
    and "pairs_of rec = Inr kvs"
    and strs: "list_all is_str (map fst kvs)"
    and same: "py_str ` fst ` set kvs = set u"
  shows "\<exists>attrs. get_statistics lib w sock =
           (Return (VObj ''Statistics'' attrs), w, snd (execute sock ''GETSTATS'' VNone)) \<and>
           map fst attrs = u \<and>
           (\<forall>(k, v) \<in> set kvs. map_of attrs (py_str k) = dict_of kvs (py_str k)) \<and>
           (distinct (map fst kvs) \<longrightarrow> (\<forall>(k, v) \<in> set kvs. map_of attrs (py_str k) = Some v))"
proof -
  have "\<forall>f \<in> set u. dict_of kvs f \<noteq> None"
  proof
    fix f
    assume "f \<in> set u"
    with same have "f \<in> py_str ` fst ` set kvs" by simp
    then show "dict_of kvs f \<noteq> None" by (simp only: dict_of_dom)
  qed
  from those_some [OF this] obtain attrs where
    th: "those (map (\<lambda>f. map_option (Pair f) (dict_of kvs f)) u) = Some attrs" ..
  from same have "py_str ` fst ` set kvs \<subseteq> set u" by simp
  from stats_new_checks [OF strs this] th
  have sn: "stats_new u kvs = Inr (VObj ''Statistics'' attrs)" by simp
  from assms(1)
  have c: "(case stats_type w of Some u \<Rightarrow> Inr u | None \<Rightarrow> namedtuple lib (map fst kvs)) = Inr u"
    by simp
  from get_statistics_on_reply [OF assms(2,3,4) c sn] assms(1)
  have call: "get_statistics lib w sock =
           (Return (VObj ''Statistics'' attrs), w, snd (execute sock ''GETSTATS'' VNone))"
    by simp
  from those_fields [OF th] have fields: "map fst attrs = u"
    and vals: "\<forall>f \<in> set u. map_of attrs f = dict_of kvs f" by simp_all
  have paired: "\<forall>(k, v) \<in> set kvs. map_of attrs (py_str k) = dict_of kvs (py_str k)"
  proof (intro ballI)
    fix p
    assume p: "p \<in> set kvs"
    obtain k v where kv: "p = (k, v)" by (cases p)
    from p kv have "py_str k \<in> py_str ` fst ` set kvs" by force
    with same have "py_str k \<in> set u" by simp
    with vals have "map_of attrs (py_str k) = dict_of kvs (py_str k)" by blast
    with kv show "case p of (k, v) \<Rightarrow> map_of attrs (py_str k) = dict_of kvs (py_str k)"
      by simp
  qed
  have single: "distinct (map fst kvs) \<longrightarrow> (\<forall>(k, v) \<in> set kvs. map_of attrs (py_str k) = Some v)"
  proof (intro impI ballI)
    fix p
    assume d: "distinct (map fst kvs)" and p: "p \<in> set kvs"
    obtain k v where kv: "p = (k, v)" by (cases p)
    from dict_of_distinct [OF d strs p [unfolded kv]] paired p kv
    show "case p of (k, v) \<Rightarrow> map_of attrs (py_str k) = Some v" by fastforce
  qed
  from call fields paired single show ?thesis
    by (intro exI [of _ attrs] conjI) assumption+
qed

lemma returned_structure:
  assumes "get_statistics lib w sock = (Return r, w', sock')"
  shows "\<exists>rec kvs attrs.
         fst (execute sock ''GETSTATS'' VNone) = Return rec \<and>
         pairs_of rec = Inr kvs \<and>
         (stats_type w = None \<longrightarrow> stats_type w' = Some (map (py_str \<circ> fst) kvs)) \<and>
         stats_type w' = Some (map fst attrs) \<and>
         r = VObj ''Statistics'' attrs \<and>
         (\<forall>(k, v) \<in> set kvs. map_of attrs (py_str k) = dict_of kvs (py_str k)) \<and>
         (distinct (map fst kvs) \<longrightarrow> (\<forall>(k, v) \<in> set kvs. map_of attrs (py_str k) = Some v))"
proof -
  from assms obtain rec kvs t' where
    rec: "fst (execute sock ''GETSTATS'' VNone) = Return rec"
    and kvs: "pairs_of rec = Inr kvs"
    and t': "(case stats_type w of Some u \<Rightarrow> Inr u | None \<Rightarrow> namedtuple lib (map fst kvs)) = Inr t'"
    and w': "w' = w\<lparr>stats_type := Some t'\<rparr>"
    and built: "stats_new t' kvs = Inr r"
    by (rule get_statistics_cases)
  from built obtain attrs where
    r: "r = VObj ''Statistics'' attrs" and fields: "map fst attrs = t'"
    and vals: "\<forall>f \<in> set t'. map_of attrs f = dict_of kvs f"
    and strs: "list_all is_str (map fst kvs)"
    and keys: "\<forall>(k, v) \<in> set kvs. py_str k \<in> set t'"
    by (rule stats_new_fields)
  have first: "stats_type w = None \<longrightarrow> stats_type w' = Some (map (py_str \<circ> fst) kvs)"
  proof
    assume "stats_type w = None"
    with t' have "namedtuple lib (map fst kvs) = Inr t'" by simp
    then have "t' = map py_str (map fst kvs)"
      by (simp add: namedtuple_def Let_def split: if_splits)
    with w' show "stats_type w' = Some (map (py_str \<circ> fst) kvs)" by simp
  qed
  have shape: "stats_type w' = Some (map fst attrs)"
    using w' fields by simp
  have paired: "\<forall>(k, v) \<in> set kvs. map_of attrs (py_str k) = dict_of kvs (py_str k)"
    using vals keys by fastforce
  have single: "distinct (map fst kvs) \<longrightarrow> (\<forall>(k, v) \<in> set kvs. map_of attrs (py_str k) = Some v)"
  proof (intro impI ballI)
    fix p
    assume d: "distinct (map fst kvs)" and p: "p \<in> set kvs"
    obtain k v where kv: "p = (k, v)" by (cases p)
    from dict_of_distinct [OF d strs p [unfolded kv]] paired p kv
    show "case p of (k, v) \<Rightarrow> map_of attrs (py_str k) = Some v" by fastforce
  qed
  from rec kvs first shape r paired single
  show "\<exists>rec kvs attrs.
         fst (execute sock ''GETSTATS'' VNone) = Return rec \<and>
         pairs_of rec = Inr kvs \<and>
         (stats_type w = None \<longrightarrow> stats_type w' = Some (map (py_str \<circ> fst) kvs)) \<and>
         stats_type w' = Some (map fst attrs) \<and>
         r = VObj ''Statistics'' attrs \<and>
         (\<forall>(k, v) \<in> set kvs. map_of attrs (py_str k) = dict_of kvs (py_str k)) \<and>
         (distinct (map fst kvs) \<longrightarrow> (\<forall>(k, v) \<in> set kvs. map_of attrs (py_str k) = Some v))"
    by (intro exI [of _ rec] exI [of _ kvs] exI [of _ attrs] conjI) assumption+
qed

text \<open>
  Claim C6. Once the class attribute \<open>stats_type\<close> holds a shape, it holds the same shape
  after any sequence of \<open>get_statistics\<close> calls, on whatever instances they are made: it is
  never rebuilt. For a call that is answered \<open>OK\<close> with a list of pairs whose names are
  strings: while the attribute is still \<open>None\<close> and the names are valid field names that do
  not repeat, the call returns the structure of exactly these pairs and sets the attribute
  to the names of the reply, in their order; once the attribute holds a shape with the same
  names, the call returns a structure with the fields of that shape, leaves the attribute
  alone, and each field holds the value the reply pairs with it (the last one, should the
  reply repeat a name). Conversely, every structure a call returns is of this kind.
\<close>

theorem statistics_shape:
  "(stats_type w = Some t \<longrightarrow> stats_type (fst (get_statistics_calls lib w socks)) = Some t) \<and>
   (writable sock \<and> inbound sock @ peer sock ''GETSTATS'' VNone = (''OK'', rec) # rest \<and>
    pairs_of rec = Inr kvs \<and> list_all is_str (map fst kvs) \<longrightarrow>
      (stats_type w = None \<and> list_all (valid_field lib) (map (py_str \<circ> fst) kvs) \<and>
       distinct (map (py_str \<circ> fst) kvs) \<longrightarrow>
         get_statistics lib w sock =
           (Return (VObj ''Statistics'' (map (\<lambda>(k, v). (py_str k, v)) kvs)),
            w\<lparr>stats_type := Some (map (py_str \<circ> fst) kvs)\<rparr>,
            snd (execute sock ''GETSTATS'' VNone))) \<and>
      (stats_type w = Some u \<and> py_str ` fst ` set kvs = set u \<longrightarrow>
         (\<exists>attrs.
            get_statistics lib w sock =
              (Return (VObj ''Statistics'' attrs), w, snd (execute sock ''GETSTATS'' VNone)) \<and>
            map fst attrs = u \<and>
            (\<forall>(k, v) \<in> set kvs. map_of attrs (py_str k) = dict_of kvs (py_str k)) \<and>
            (distinct (map fst kvs) \<longrightarrow>
               (\<forall>(k, v) \<in> set kvs. map_of attrs (py_str k) = Some v))))) \<and>
   (get_statistics lib w sock = (Return r, w', sock') \<longrightarrow>
      (\<exists>rec kvs attrs.
         fst (execute sock ''GETSTATS'' VNone) = Return rec \<and>
         pairs_of rec = Inr kvs \<and>
         (stats_type w = None \<longrightarrow> stats_type w' = Some (map (py_str \<circ> fst) kvs)) \<and>
         stats_type w' = Some (map fst attrs) \<and>
         r = VObj ''Statistics'' attrs \<and>
         (\<forall>(k, v) \<in> set kvs. map_of attrs (py_str k) = dict_of kvs (py_str k)) \<and>
         (distinct (map fst kvs) \<longrightarrow> (\<forall>(k, v) \<in> set kvs. map_of attrs (py_str k) = Some v))))"
proof (intro conjI)
  show "stats_type w = Some t \<longrightarrow> stats_type (fst (get_statistics_calls lib w socks)) = Some t"
    by (intro impI) (rule get_statistics_calls_keep)
next
  show "writable sock \<and> inbound sock @ peer sock ''GETSTATS'' VNone = (''OK'', rec) # rest \<and>
    pairs_of rec = Inr kvs \<and> list_all is_str (map fst kvs) \<longrightarrow>
      (stats_type w = None \<and> list_all (valid_field lib) (map (py_str \<circ> fst) kvs) \<and>
       distinct (map (py_str \<circ> fst) kvs) \<longrightarrow>
         get_statistics lib w sock =
           (Return (VObj ''Statistics'' (map (\<lambda>(k, v). (py_str k, v)) kvs)),
            w\<lparr>stats_type := Some (map (py_str \<circ> fst) kvs)\<rparr>,
            snd (execute sock ''GETSTATS'' VNone))) \<and>
      (stats_type w = Some u \<and> py_str ` fst ` set kvs = set u \<longrightarrow>
         (\<exists>attrs.
            get_statistics lib w sock =
              (Return (VObj ''Statistics'' attrs), w, snd (execute sock ''GETSTATS'' VNone)) \<and>
            map fst attrs = u \<and>
            (\<forall>(k, v) \<in> set kvs. map_of attrs (py_str k) = dict_of kvs (py_str k)) \<and>
            (distinct (map fst kvs) \<longrightarrow>
               (\<forall>(k, v) \<in> set kvs. map_of attrs (py_str k) = Some v))))"
  proof (intro impI conjI)
    assume reply: "writable sock \<and>
      inbound sock @ peer sock ''GETSTATS'' VNone = (''OK'', rec) # rest \<and>
      pairs_of rec = Inr kvs \<and> list_all is_str (map fst kvs)"
    assume first: "stats_type w = None \<and> list_all (valid_field lib) (map (py_str \<circ> fst) kvs) \<and>
       distinct (map (py_str \<circ> fst) kvs)"
    from reply first show "get_statistics lib w sock =
           (Return (VObj ''Statistics'' (map (\<lambda>(k, v). (py_str k, v)) kvs)),
            w\<lparr>stats_type := Some (map (py_str \<circ> fst) kvs)\<rparr>,
            snd (execute sock ''GETSTATS'' VNone))"
      by (intro first_reply_pins [where rec = rec and rest = rest]) simp_all
  next
    assume reply: "writable sock \<and>
      inbound sock @ peer sock ''GETSTATS'' VNone = (''OK'', rec) # rest \<and>
      pairs_of rec = Inr kvs \<and> list_all is_str (map fst kvs)"
    assume later: "stats_type w = Some u \<and> py_str ` fst ` set kvs = set u"
    from reply later show "\<exists>attrs.
            get_statistics lib w sock =
              (Return (VObj ''Statistics'' attrs), w, snd (execute sock ''GETSTATS'' VNone)) \<and>
            map fst attrs = u \<and>
            (\<forall>(k, v) \<in> set kvs. map_of attrs (py_str k) = dict_of kvs (py_str k)) \<and>
            (distinct (map fst kvs) \<longrightarrow>
               (\<forall>(k, v) \<in> set kvs. map_of attrs (py_str k) = Some v))"
      by (intro later_reply_reuses [where rec = rec and rest = rest]) simp_all
  qed
next
  show "get_statistics lib w sock = (Return r, w', sock') \<longrightarrow>
      (\<exists>rec kvs attrs.
         fst (execute sock ''GETSTATS'' VNone) = Return rec \<and>
         pairs_of rec = Inr kvs \<and>
         (stats_type w = None \<longrightarrow> stats_type w' = Some (map (py_str \<circ> fst) kvs)) \<and>
         stats_type w' = Some (map fst attrs) \<and>
         r = VObj ''Statistics'' attrs \<and>
         (\<forall>(k, v) \<in> set kvs. map_of attrs (py_str k) = dict_of kvs (py_str k)) \<and>
         (distinct (map fst kvs) \<longrightarrow> (\<forall>(k, v) \<in> set kvs. map_of attrs (py_str k) = Some v)))"
    by (intro impI) (rule returned_structure)
qed

text \<open>The statistics of two fields, decoded by a first call and by a later one.\<close>

lemma stats_reply_pairs:
  "pairs_of (VList [VTuple [VStr ''downloads_last_month'', VInt 100],
                    VTuple [VStr ''packages_count'', VInt 500]]) =
     Inr [(VStr ''downloads_last_month'', VInt 100), (VStr ''packages_count'', VInt 500)]"
  by (simp add: pairs_of_def)

lemma stats_fields_valid:
  "list_all (valid_field ascii_lib) [''downloads_last_month'', ''packages_count'']"
  by (simp add: valid_field_def ascii_lib_def py_keywords_def is_alpha_def is_digit_def)

lemma stats_eval:
  "get_statistics ascii_lib world0 (socket0\<lparr>peer := stats_peer\<rparr>) =
     (Return (VObj ''Statistics''
        [(''downloads_last_month'', VInt 100), (''packages_count'', VInt 500)]),
      world0\<lparr>stats_type := Some [''downloads_last_month'', ''packages_count'']\<rparr>,
      socket0\<lparr>peer := stats_peer, outbound := [(''GETSTATS'', VNone)],
        calls := [SendMsgCall ''GETSTATS'' VNone NOBLOCK, RecvMsgCall]\<rparr>)"
  using stats_fields_valid
  by (simp add: get_statistics_def execute_def send_msg_def recv_msg_def socket0_def world0_def
      stats_peer_def pairs_of_def namedtuple_def stats_new_def dict_of_def Let_def)

lemma stats_eval_later:
  "get_statistics ascii_lib
     (world0\<lparr>stats_type := Some [''packages_count'', ''downloads_last_month'']\<rparr>)
     (socket0\<lparr>peer := stats_peer\<rparr>) =
     (Return (VObj ''Statistics''
        [(''packages_count'', VInt 500), (''downloads_last_month'', VInt 100)]),
      world0\<lparr>stats_type := Some [''packages_count'', ''downloads_last_month'']\<rparr>,
      socket0\<lparr>peer := stats_peer, outbound := [(''GETSTATS'', VNone)],
        calls := [SendMsgCall ''GETSTATS'' VNone NOBLOCK, RecvMsgCall]\<rparr>)"
  by (simp add: get_statistics_def execute_def send_msg_def recv_msg_def socket0_def world0_def
      stats_peer_def pairs_of_def stats_new_def dict_of_def Let_def)

theorem statistics_shape_witness:
  "writable (socket0\<lparr>peer := stats_peer\<rparr>) \<and>
   inbound (socket0\<lparr>peer := stats_peer\<rparr>) @
     peer (socket0\<lparr>peer := stats_peer\<rparr>) ''GETSTATS'' VNone =
     [(''OK'', VList [VTuple [VStr ''downloads_last_month'', VInt 100],
                      VTuple [VStr ''packages_count'', VInt 500]])] \<and>
   pairs_of (VList [VTuple [VStr ''downloads_last_month'', VInt 100],
                    VTuple [VStr ''packages_count'', VInt 500]]) =
     Inr [(VStr ''downloads_last_month'', VInt 100), (VStr ''packages_count'', VInt 500)] \<and>
   list_all is_str [VStr ''downloads_last_month'', VStr ''packages_count''] \<and>
   stats_type world0 = None \<and>
   list_all (valid_field ascii_lib) [''downloads_last_month'', ''packages_count''] \<and>
   distinct [''downloads_last_month'', ''packages_count''] \<and>
   get_statistics ascii_lib world0 (socket0\<lparr>peer := stats_peer\<rparr>) =
     (Return (VObj ''Statistics''
        [(''downloads_last_month'', VInt 100), (''packages_count'', VInt 500)]),
      world0\<lparr>stats_type := Some [''downloads_last_month'', ''packages_count'']\<rparr>,
      socket0\<lparr>peer := stats_peer, outbound := [(''GETSTATS'', VNone)],
        calls := [SendMsgCall ''GETSTATS'' VNone NOBLOCK, RecvMsgCall]\<rparr>) \<and>
   stats_type (world0\<lparr>stats_type := Some [''packages_count'', ''downloads_last_month'']\<rparr>) =
     Some [''packages_count'', ''downloads_last_month''] \<and>
   py_str ` fst ` set [(VStr ''downloads_last_month'', VInt 100), (VStr ''packages_count'', VInt 500)] =
     set [''packages_count'', ''downloads_last_month''] \<and>
   get_statistics ascii_lib
     (world0\<lparr>stats_type := Some [''packages_count'', ''downloads_last_month'']\<rparr>)
     (socket0\<lparr>peer := stats_peer\<rparr>) =
     (Return (VObj ''Statistics''
        [(''packages_count'', VInt 500), (''downloads_last_month'', VInt 100)]),
      world0\<lparr>stats_type := Some [''packages_count'', ''downloads_last_month'']\<rparr>,
      socket0\<lparr>peer := stats_peer, outbound := [(''GETSTATS'', VNone)],
        calls := [SendMsgCall ''GETSTATS'' VNone NOBLOCK, RecvMsgCall]\<rparr>) \<and>
   stats_type
     (fst (get_statistics_calls ascii_lib
        (world0\<lparr>stats_type := Some [''packages_count'', ''downloads_last_month'']\<rparr>)
        [socket0\<lparr>peer := stats_peer\<rparr>, socket0])) =
     Some [''packages_count'', ''downloads_last_month'']"
proof -
  have reply: "inbound (socket0\<lparr>peer := stats_peer\<rparr>) @
     peer (socket0\<lparr>peer := stats_peer\<rparr>) ''GETSTATS'' VNone =
     [(''OK'', VList [VTuple [VStr ''downloads_last_month'', VInt 100],
                      VTuple [VStr ''packages_count'', VInt 500]])]"
    by (simp add: socket0_def stats_peer_def)
  have keys: "py_str ` fst `
      set [(VStr ''downloads_last_month'', VInt 100), (VStr ''packages_count'', VInt 500)] =
     set [''packages_count'', ''downloads_last_month'']"
    by auto
  have none: "stats_type world0 = None" by (simp add: world0_def)
  have later: "stats_type
     (fst (get_statistics_calls ascii_lib
        (world0\<lparr>stats_type := Some [''packages_count'', ''downloads_last_month'']\<rparr>)
        [socket0\<lparr>peer := stats_peer\<rparr>, socket0])) =
     Some [''packages_count'', ''downloads_last_month'']"
    using statistics_shape
      [where w = "world0\<lparr>stats_type := Some [''packages_count'', ''downloads_last_month'']\<rparr>"
        and t = "[''packages_count'', ''downloads_last_month'']" and lib = ascii_lib
        and socks = "[socket0\<lparr>peer := stats_peer\<rparr>, socket0]"]
    by simp
  note first =
    statistics_shape
      [where w = world0 and lib = ascii_lib and sock = "socket0\<lparr>peer := stats_peer\<rparr>"
        and rec = "VList [VTuple [VStr ''downloads_last_month'', VInt 100],
                          VTuple [VStr ''packages_count'', VInt 500]]"
        and rest = "[]"
        and kvs = "[(VStr ''downloads_last_month'', VInt 100), (VStr ''packages_count'', VInt 500)]"]
  from first reply keys none later stats_reply_pairs stats_fields_valid stats_eval stats_eval_later
  show ?thesis by (simp add: socket0_def)
qed

end
